theory Spec2Isabelle
  imports Complex_Main
begin

section \<open>Conventions of the embedding\<close>

text \<open>
  The engine is TypeScript; its \<^verbatim>\<open>number\<close> is the IEEE 754 binary64 double. A double is
  modelled by the \<^typ>\<open>real\<close> it denotes (\<^verbatim>\<open>NaN\<close> and the infinities are not part of the
  model), and an arithmetic operation by the exact operation followed by the rounding
  \<open>double\<close> to the nearest double, defined below.

  The weighted sum of \<^verbatim>\<open>calculateSpotScore\<close> and the loops of \<^verbatim>\<open>normalizeAngle\<close> are modelled
  with that rounding (\<open>normalizeAngle64\<close>), since their claims depend on it. The condition
  scorers are modelled in exact arithmetic, with \<^verbatim>\<open>normalizeAngle\<close> in exact arithmetic as
  well; the two models of \<^verbatim>\<open>normalizeAngle\<close> agree on every whole number of degrees
  (lemma \<open>normalizeAngle64_of_int\<close>).
  A \<^verbatim>\<open>number\<close> that is integral by construction (the result of \<^verbatim>\<open>Math.round\<close>, an hour of
  the day, a count of minutes) is an \<^typ>\<open>int\<close> or a \<^typ>\<open>nat\<close>.

  \<^verbatim>\<open>Math.round\<close> rounds half up, which is \<^const>\<open>round\<close> of HOL
  (\<^prop>\<open>round x = \<lfloor>x + 1 / 2\<rfloor>\<close>).

  A \<^verbatim>\<open>Date\<close> is the number of milliseconds of local wall-clock time since a fixed local
  midnight, an \<^typ>\<open>int\<close>; the local day has 24 hours (no daylight-saving switch inside
  the day). Where the source reads the clock (\<^verbatim>\<open>new Date()\<close>), the model takes the
  current time \<open>now\<close> as an argument. A time string of a tide prediction is taken as already
  parsed (\<^verbatim>\<open>new Date(prediction.time)\<close>).
\<close>

subsection \<open>Rounding to binary64\<close>

text \<open>\<open>ilog2 n\<close> is the position of the leading bit of \<open>n\<close>, and \<open>binade x\<close> the exponent
  \<open>e\<close> with \<open>2\<^sup>e \<le> \<bar>x\<bar> < 2\<^sup>e\<^sup>+\<^sup>1\<close>, for \<open>x\<close> other than 0.\<close>

function ilog2 :: "int \<Rightarrow> int" where
  "ilog2 n = (if n < 2 then 0 else 1 + ilog2 (n div 2))"
  by pat_completeness auto
termination
  by (relation "measure nat") auto

declare ilog2.simps [simp del]

definition binade :: "real \<Rightarrow> int" where
  "binade x =
     (if 1 \<le> \<bar>x\<bar> then ilog2 \<lfloor>\<bar>x\<bar>\<rfloor>
      else - ilog2 (\<lceil>1 / \<bar>x\<bar>\<rceil> - 1) - 1)"

text \<open>The nearest integer, the even one at a tie.\<close>

definition roundTiesToEven :: "real \<Rightarrow> int" where
  "roundTiesToEven y =
     (let f = \<lfloor>y\<rfloor>;
          d = y - of_int f
      in if d < 1 / 2 then f
         else if d > 1 / 2 then f + 1
         else if even f then f else f + 1)"

text \<open>The double nearest to \<open>x\<close> (round to nearest, ties to even): a multiple of the unit
  in the last place of the binade of \<open>x\<close>, 53 bits of precision, the exponent not below
  -1022. Overflow to infinity (from \<open>2\<^sup>1\<^sup>0\<^sup>2\<^sup>4\<close> on) is not modelled.\<close>

definition double :: "real \<Rightarrow> real" where
  "double x =
     (if x = 0 then 0
      else
        (let e = max (binade x) (- 1022);
             ulp = 2 powi (e - 52)
         in of_int (roundTiesToEven (x / ulp)) * ulp))"

subsection \<open>The part of the \<^verbatim>\<open>Date\<close> interface the engine uses\<close>

definition msPerMinute :: int where
  "msPerMinute = 60 * 1000"

definition msPerHour :: int where
  "msPerHour = 60 * 60 * 1000"

definition msPerDay :: int where
  "msPerDay = 24 * 60 * 60 * 1000"

definition getHours :: "int \<Rightarrow> nat" where
  "getHours t = nat ((t mod msPerDay) div msPerHour)"

definition getMinutes :: "int \<Rightarrow> int" where
  "getMinutes t = (t mod msPerHour) div msPerMinute"

text \<open>\<^verbatim>\<open>d.setMinutes(m)\<close>: the minutes field is replaced, hours, seconds and milliseconds
  stay, and a value outside 0..59 carries into the hours.\<close>

definition setMinutes :: "int \<Rightarrow> int \<Rightarrow> int" where
  "setMinutes t m = t - getMinutes t * msPerMinute + m * msPerMinute"

text \<open>\<^verbatim>\<open>d.setHours(0, 0, 0, 0)\<close>: local midnight of the day of \<open>d\<close>.\<close>

definition startOfDay :: "int \<Rightarrow> int" where
  "startOfDay t = t - t mod msPerDay"

subsection \<open>Decimal text of numbers\<close>

text \<open>The digit \<open>d\<close> of 0..9 as a character.\<close>

definition digitChar :: "nat \<Rightarrow> char" where
  "digitChar d = ''0123456789'' ! d"

fun showNat :: "nat \<Rightarrow> string" where
  "showNat n = (if n < 10 then [digitChar n] else showNat (n div 10) @ [digitChar (n mod 10)])"

declare showNat.simps [simp del]

definition showInt :: "int \<Rightarrow> string" where
  "showInt i = (if i < 0 then ''-'' @ showNat (nat (- i)) else showNat (nat i))"

text \<open>\<^verbatim>\<open>x.toFixed(1)\<close>: one decimal, the nearest tenth of the absolute value (the larger
  one at a tie), with the sign in front (below 1e21, where JavaScript has no exponent).\<close>

definition toFixed1 :: "real \<Rightarrow> string" where
  "toFixed1 x =
     (let n = nat (round (\<bar>x\<bar> * 10))
      in (if x < 0 then ''-'' else '''') @ showNat (n div 10) @ ''.'' @ showNat (n mod 10))"

section \<open>\<^verbatim>\<open>lib/utils.ts\<close>\<close>

text \<open>
  \<^verbatim>\<open>
  export function normalizeAngle(angle: number): number {
    let normalized = angle
    while (normalized < -180) normalized += 360
    while (normalized > 180) normalized -= 360
    return normalized
  }
  \<close>
  Each loop is a recursive function; both terminate on every real.
\<close>

function normalizeAngle_up :: "real \<Rightarrow> real" where
  "normalizeAngle_up normalized =
     (if normalized < - 180 then normalizeAngle_up (normalized + 360) else normalized)"
  by pat_completeness auto
termination
proof (relation "measure (\<lambda>x. nat \<lceil>(- 180 - x) / 360\<rceil>)")
  show "wf (measure (\<lambda>x. nat \<lceil>(- 180 - x) / 360\<rceil>))"
    by simp
next
  fix normalized :: real
  assume lt: "normalized < - 180"
  have pos: "0 < (- 180 - normalized) / 360"
    using lt by simp
  have step: "(- 180 - (normalized + 360)) / 360 = (- 180 - normalized) / 360 - 1"
    by (simp add: field_simps)
  have "\<lceil>(- 180 - (normalized + 360)) / 360\<rceil> = \<lceil>(- 180 - normalized) / 360\<rceil> - 1"
    unfolding step by simp
  moreover have "0 < \<lceil>(- 180 - normalized) / 360\<rceil>"
    using pos by (simp add: ceiling_less_iff)
  ultimately show "(normalized + 360, normalized) \<in> measure (\<lambda>x. nat \<lceil>(- 180 - x) / 360\<rceil>)"
    by simp
qed

function normalizeAngle_down :: "real \<Rightarrow> real" where
  "normalizeAngle_down normalized =
     (if normalized > 180 then normalizeAngle_down (normalized - 360) else normalized)"
  by pat_completeness auto
termination
proof (relation "measure (\<lambda>x. nat \<lceil>(x - 180) / 360\<rceil>)")
  show "wf (measure (\<lambda>x. nat \<lceil>(x - 180) / 360\<rceil>))"
    by simp
next
  fix normalized :: real
  assume gt: "180 < normalized"
  have pos: "0 < (normalized - 180) / 360"
    using gt by simp
  have step: "(normalized - 360 - 180) / 360 = (normalized - 180) / 360 - 1"
    by (simp add: field_simps)
  have "\<lceil>(normalized - 360 - 180) / 360\<rceil> = \<lceil>(normalized - 180) / 360\<rceil> - 1"
    unfolding step by simp
  moreover have "0 < \<lceil>(normalized - 180) / 360\<rceil>"
    using pos by (simp add: ceiling_less_iff)
  ultimately show "(normalized - 360, normalized) \<in> measure (\<lambda>x. nat \<lceil>(x - 180) / 360\<rceil>)"
    by simp
qed

declare normalizeAngle_up.simps [simp del]
declare normalizeAngle_down.simps [simp del]

definition normalizeAngle :: "real \<Rightarrow> real" where
  "normalizeAngle angle = normalizeAngle_down (normalizeAngle_up angle)"




section \<open>\<^verbatim>\<open>lib/scoring.ts\<close>: the condition scorers\<close>

record SkillConfig =
  minIdeal :: real
  maxIdeal :: real
  minSurfable :: real
  maxSurfable :: real

text \<open>\<^verbatim>\<open>SKILL_CONFIGS: Record<string, Record<string, SkillConfig>>\<close>, a table of tables. Only
  the own keys of the object literal are modelled (a lookup of a key inherited from
  \<^verbatim>\<open>Object.prototype\<close> is a miss here).\<close>

definition SKILL_CONFIGS :: "string \<rightharpoonup> (string \<rightharpoonup> SkillConfig)" where
  "SKILL_CONFIGS =
     [''longboard'' \<mapsto>
        [''beginner'' \<mapsto> \<lparr>minIdeal = 1.5, maxIdeal = 3, minSurfable = 1, maxSurfable = 5\<rparr>,
         ''advanced'' \<mapsto> \<lparr>minIdeal = 2, maxIdeal = 5, minSurfable = 1.5, maxSurfable = 7\<rparr>,
         ''expert'' \<mapsto> \<lparr>minIdeal = 3, maxIdeal = 6, minSurfable = 2, maxSurfable = 10\<rparr>],
      ''mediumboard'' \<mapsto>
        [''beginner'' \<mapsto> \<lparr>minIdeal = 2, maxIdeal = 4, minSurfable = 1.5, maxSurfable = 6\<rparr>,
         ''advanced'' \<mapsto> \<lparr>minIdeal = 3, maxIdeal = 6, minSurfable = 2, maxSurfable = 8\<rparr>,
         ''expert'' \<mapsto> \<lparr>minIdeal = 4, maxIdeal = 8, minSurfable = 2.5, maxSurfable = 12\<rparr>],
      ''shortboard'' \<mapsto>
        [''beginner'' \<mapsto> \<lparr>minIdeal = 2.5, maxIdeal = 4, minSurfable = 2, maxSurfable = 6\<rparr>,
         ''advanced'' \<mapsto> \<lparr>minIdeal = 3, maxIdeal = 7, minSurfable = 2.5, maxSurfable = 10\<rparr>,
         ''expert'' \<mapsto> \<lparr>minIdeal = 4, maxIdeal = 10, minSurfable = 3, maxSurfable = 15\<rparr>]]"

text \<open>\<^verbatim>\<open>SKILL_CONFIGS[surferType]?.[skillLevel]\<close>\<close>

definition lookupSkillConfig :: "string \<Rightarrow> string \<Rightarrow> SkillConfig option" where
  "lookupSkillConfig surferType skillLevel =
     (case SKILL_CONFIGS surferType of None \<Rightarrow> None | Some levels \<Rightarrow> levels skillLevel)"

text \<open>The body of \<^verbatim>\<open>scoreWaveHeight\<close> once the configuration is found, branch by branch in
  the source's order.\<close>

definition scoreWaveHeightWith :: "SkillConfig \<Rightarrow> real \<Rightarrow> int" where
  "scoreWaveHeightWith config height =
     (if height \<ge> minIdeal config \<and> height \<le> maxIdeal config then 100
      else if height \<ge> minSurfable config \<and> height < minIdeal config then
        (let range = minIdeal config - minSurfable config;
             diff = minIdeal config - height
         in round (100 - (diff / range) * 40))
      else if height > maxIdeal config \<and> height \<le> maxSurfable config then
        (let range = maxSurfable config - maxIdeal config;
             diff = height - maxIdeal config
         in round (100 - (diff / range) * 50))
      else if height < minSurfable config then
        max 0 (round ((height / minSurfable config) * 30))
      else if height > maxSurfable config then
        max 0 (round (30 - (height - maxSurfable config) * 10))
      else 0)"

definition scoreWaveHeight :: "real \<Rightarrow> string \<Rightarrow> string \<Rightarrow> int" where
  "scoreWaveHeight height surferType skillLevel =
     (case lookupSkillConfig surferType skillLevel of
        None \<Rightarrow> 50
      | Some config \<Rightarrow> scoreWaveHeightWith config height)"

definition scoreWavePeriod :: "real \<Rightarrow> int" where
  "scoreWavePeriod period =
     (if period \<ge> 15 then 100
      else if period \<ge> 13 then 90
      else if period \<ge> 11 then 75
      else if period \<ge> 9 then 55
      else if period \<ge> 7 then 35
      else 20)"

definition windSpeedScore :: "real \<Rightarrow> real" where
  "windSpeedScore speed =
     (if speed < 5 then 100
      else if speed < 10 then 85
      else if speed < 15 then 65
      else if speed < 20 then 40
      else if speed < 25 then 20
      else 5)"

definition windDirectionMultiplier :: "real \<Rightarrow> real" where
  "windDirectionMultiplier angleDiff =
     (if angleDiff \<le> 45 then 1.0
      else if angleDiff \<le> 90 then 0.85
      else if angleDiff \<le> 135 then 0.6
      else 0.4)"

definition scoreWind :: "real \<Rightarrow> real \<Rightarrow> real \<Rightarrow> int" where
  "scoreWind speed direction spotOffshoreDirection =
     (let speedScore = windSpeedScore speed;
          angleDiff = \<bar>normalizeAngle (direction - spotOffshoreDirection)\<bar>;
          directionMultiplier = windDirectionMultiplier angleDiff;
          directionMultiplier =
            (if speed < 5 then max 0.9 directionMultiplier else directionMultiplier)
      in round (speedScore * directionMultiplier))"

definition scoreSwellDirection :: "real \<Rightarrow> real list \<Rightarrow> int" where
  "scoreSwellDirection swellDirection spotOptimalDirections =
     (let minDiff =
            fold (\<lambda>optimal minDiff. min minDiff \<bar>normalizeAngle (swellDirection - optimal)\<bar>)
              spotOptimalDirections 180
      in if minDiff \<le> 15 then 100
         else if minDiff \<le> 30 then 85
         else if minDiff \<le> 45 then 70
         else if minDiff \<le> 60 then 50
         else if minDiff \<le> 90 then 30
         else 10)"

datatype TidePhase = Rising | Falling | High | Low

datatype BestTide = TideLow | TideMid | TideHigh | TideAny

fun scoreTide :: "real \<Rightarrow> TidePhase \<Rightarrow> BestTide \<Rightarrow> int" where
  "scoreTide currentTideHeight tidePhase TideAny = 80"
| "scoreTide currentTideHeight tidePhase TideLow =
     (let tidePct = min 1 (max 0 (currentTideHeight / 6))
      in if tidePct < 0.33 then 100
         else if tidePct < 0.5 then 75
         else if tidePct < 0.67 then 50
         else 30)"
| "scoreTide currentTideHeight tidePhase TideMid =
     (let tidePct = min 1 (max 0 (currentTideHeight / 6))
      in if tidePct \<ge> 0.33 \<and> tidePct \<le> 0.67 then 100
         else if tidePct \<ge> 0.2 \<and> tidePct \<le> 0.8 then 75
         else 50)"
| "scoreTide currentTideHeight tidePhase TideHigh =
     (let tidePct = min 1 (max 0 (currentTideHeight / 6))
      in if tidePct > 0.67 then 100
         else if tidePct > 0.5 then 75
         else if tidePct > 0.33 then 50
         else 30)"

section \<open>\<^verbatim>\<open>lib/scoring.ts\<close>: the spot score\<close>

text \<open>The fields of \<^verbatim>\<open>SurfConditions\<close>, \<^verbatim>\<open>SpotConfig\<close> and of the preferences that the scoring
  reads.\<close>

record SurfConditions =
  waveHeight :: real
  wavePeriod :: real
  swellDirection :: real
  windSpeed :: real
  windDirection :: real
  tideHeight :: real
  tidePhase :: TidePhase

record SpotConfig =
  optimalSwellDirections :: "real list"
  offshoreWindDirection :: real
  bestTide :: BestTide

record Prefs =
  surferType :: string
  skillLevel :: string

datatype Rating = Poor | Fair | Good | Excellent

record ScoreResult =
  score :: int
  rating :: Rating
  breakdown :: string

text \<open>\<^verbatim>\<open>parts.join(' ')\<close>\<close>

fun joinWith :: "string \<Rightarrow> string list \<Rightarrow> string" where
  "joinWith sep [] = []"
| "joinWith sep [p] = p"
| "joinWith sep (p # q # ps) = p @ sep @ joinWith sep (q # ps)"

definition generateBreakdownText ::
  "SurfConditions \<Rightarrow> Prefs \<Rightarrow> int \<Rightarrow> int \<Rightarrow> int \<Rightarrow> int \<Rightarrow> string" where
  "generateBreakdownText conditions prefs waveScore periodScore windScore swellScore =
     (let wave =
            (if waveScore \<ge> 80 then
               [''Excellent wave size ('' @ toFixed1 (waveHeight conditions) @ ''ft) for ''
                  @ skillLevel prefs @ '' '' @ surferType prefs @ '' surfers.'']
             else if waveScore \<ge> 60 then
               [''Good wave size ('' @ toFixed1 (waveHeight conditions)
                  @ ''ft) for developing skills.'']
             else if waveHeight conditions > 6 then
               [''Large waves ('' @ toFixed1 (waveHeight conditions)
                  @ ''ft) - challenging for most surfers.'']
             else if waveHeight conditions < 2 then
               [''Small waves ('' @ toFixed1 (waveHeight conditions)
                  @ ''ft) - may be underwhelming.'']
             else [''Waves at '' @ toFixed1 (waveHeight conditions) @ ''ft.'']);
          period =
            (if periodScore \<ge> 75 then
               [''Good wave period ('' @ toFixed1 (wavePeriod conditions)
                  @ ''s) indicates organized groundswell.'']
             else if periodScore \<le> 35 then
               [''Short period ('' @ toFixed1 (wavePeriod conditions)
                  @ ''s) suggests wind swell - expect choppier conditions.'']
             else []);
          wind =
            (if windSpeed conditions < 5 then [''Light winds with glassy conditions.'']
             else if windSpeed conditions < 10 then
               [''Light winds ('' @ showInt (round (windSpeed conditions))
                  @ ''mph) with clean conditions.'']
             else if windSpeed conditions < 15 then
               [''Moderate winds ('' @ showInt (round (windSpeed conditions))
                  @ ''mph) with manageable texture.'']
             else
               [''Strong winds ('' @ showInt (round (windSpeed conditions))
                  @ ''mph) creating challenging conditions.'']);
          swell =
            (if swellScore \<ge> 85 then [''Swell direction is ideal for this spot.'']
             else if swellScore \<le> 30 then [''Swell direction is not optimal for this spot.'']
             else [])
      in joinWith '' '' (wave @ period @ wind @ swell))"

text \<open>
  \<^verbatim>\<open>
  waveHeightScore * 0.3 + wavePeriodScore * 0.2 + windScore * 0.2 +
    swellScore * 0.15 + windScore * 0.1 + tideScore * 0.05
  \<close>
  The weighted sum, term by term as the source writes it (\<open>windScore\<close> appears twice), in
  binary64: each weight is the double of its decimal literal, each product and each sum,
  from the left, is rounded. The sub-scores are whole numbers, which are doubles.
\<close>

definition weightedSum :: "int \<Rightarrow> int \<Rightarrow> int \<Rightarrow> int \<Rightarrow> int \<Rightarrow> real" where
  "weightedSum waveHeightScore wavePeriodScore windScore swellScore tideScore =
     double (double (double (double (double (
       double (real_of_int waveHeightScore * double 0.3)
       + double (real_of_int wavePeriodScore * double 0.2))
       + double (real_of_int windScore * double 0.2))
       + double (real_of_int swellScore * double 0.15))
       + double (real_of_int windScore * double 0.1))
       + double (real_of_int tideScore * double 0.05))"

text \<open>The function itself.\<close>

definition calculateSpotScore :: "SurfConditions \<Rightarrow> SpotConfig \<Rightarrow> Prefs \<Rightarrow> ScoreResult" where
  "calculateSpotScore conditions spot prefs =
     (let waveHeightScore =
            scoreWaveHeight (waveHeight conditions) (surferType prefs) (skillLevel prefs);
          wavePeriodScore = scoreWavePeriod (wavePeriod conditions);
          windScore =
            scoreWind (windSpeed conditions) (windDirection conditions)
              (offshoreWindDirection spot);
          swellScore =
            scoreSwellDirection (swellDirection conditions) (optimalSwellDirections spot);
          tideScore = scoreTide (tideHeight conditions) (tidePhase conditions) (bestTide spot);
          score = round (weightedSum waveHeightScore wavePeriodScore windScore swellScore
                           tideScore);
          clampedScore = min 100 (max 0 score);
          rating =
            (if clampedScore \<ge> 80 then Excellent
             else if clampedScore \<ge> 60 then Good
             else if clampedScore \<ge> 40 then Fair
             else Poor);
          breakdown =
            generateBreakdownText conditions prefs waveHeightScore wavePeriodScore windScore
              swellScore
      in \<lparr>score = clampedScore, rating = rating, breakdown = breakdown\<rparr>)"


text \<open>The same formula in exact arithmetic, for comparison.\<close>

definition exactWeightedScore :: "int \<Rightarrow> int \<Rightarrow> int \<Rightarrow> int \<Rightarrow> int \<Rightarrow> int" where
  "exactWeightedScore waveHeightScore wavePeriodScore windScore swellScore tideScore =
     min 100 (max 0 (round (0.30 * real_of_int waveHeightScore +
                            0.20 * real_of_int wavePeriodScore +
                            0.20 * real_of_int windScore +
                            0.15 * real_of_int swellScore +
                            0.10 * real_of_int windScore +
                            0.05 * real_of_int tideScore)))"


section \<open>\<^verbatim>\<open>lib/scoring.ts\<close>: the best time window\<close>

fun scoreTideForWindow :: "real \<Rightarrow> BestTide \<Rightarrow> real" where
  "scoreTideForWindow height TideAny = 70"
| "scoreTideForWindow height TideLow =
     (let tidePct = min 1 (max 0 ((height + 1) / 7))
      in if tidePct < 0.3 then 100
         else if tidePct < 0.45 then 80
         else if tidePct < 0.6 then 50
         else 20)"
| "scoreTideForWindow height TideMid =
     (let tidePct = min 1 (max 0 ((height + 1) / 7))
      in if tidePct \<ge> 0.35 \<and> tidePct \<le> 0.65 then 100
         else if tidePct \<ge> 0.25 \<and> tidePct \<le> 0.75 then 80
         else 50)"
| "scoreTideForWindow height TideHigh =
     (let tidePct = min 1 (max 0 ((height + 1) / 7))
      in if tidePct > 0.7 then 100
         else if tidePct > 0.55 then 80
         else if tidePct > 0.4 then 50
         else 20)"

definition getTideDescription :: "real \<Rightarrow> string" where
  "getTideDescription height =
     (if height < 1 then ''Low tide''
      else if height < 2.5 then ''Low-mid tide''
      else if height < 4 then ''Mid tide''
      else if height < 5 then ''Mid-high tide''
      else ''High tide'')"

definition formatHour :: "nat \<Rightarrow> string" where
  "formatHour hour =
     (if hour = 0 \<or> hour = 24 then ''12:00 AM''
      else if hour = 12 then ''12:00 PM''
      else if hour < 12 then showNat hour @ '':00 AM''
      else showNat (hour - 12) @ '':00 PM'')"

text \<open>A tide prediction; its \<^verbatim>\<open>time\<close> string is held as the parsed \<^verbatim>\<open>Date\<close>.\<close>

datatype TideType = H | L

record TidePrediction =
  time :: int
  height :: real
  type' :: "TideType option"

record TideData =
  highLow :: "TidePrediction list"
  hourly :: "TidePrediction list"

text \<open>An entry of \<^verbatim>\<open>hourlyScores\<close>, \<^verbatim>\<open>{ hour, score, tideHeight }\<close> (its fields carry the
  prefix \<open>hs\<close>, the plain names being fields of other records), and the running
  \<^verbatim>\<open>bestWindow\<close>, \<^verbatim>\<open>{ startHour, endHour, avgScore, avgTide }\<close>.\<close>

record HourlyScore =
  hsHour :: nat
  hsScore :: real
  hsTideHeight :: real

record BestWindow =
  startHour :: nat
  endHour :: nat
  avgScore :: real
  avgTide :: real

definition windPatternScore :: "nat \<Rightarrow> real" where
  "windPatternScore hour =
     (if hour \<ge> 5 \<and> hour < 9 then 50
      else if hour \<ge> 9 \<and> hour < 11 then 35
      else if hour \<ge> 11 \<and> hour < 15 then 10
      else if hour \<ge> 15 \<and> hour < 17 then 20
      else if hour \<ge> 17 \<and> hour < 19 then 40
      else 25)"

text \<open>The first loop of \<^verbatim>\<open>calculateBestTimeWindow\<close>: a prediction outside today, or outside
  the hours 5..20, is skipped (\<^verbatim>\<open>continue\<close>); every other one pushes its entry.\<close>

fun collectHourlyScores :: "TidePrediction list \<Rightarrow> BestTide \<Rightarrow> int \<Rightarrow> int \<Rightarrow> HourlyScore list" where
  "collectHourlyScores [] spotBestTide today tomorrow = []"
| "collectHourlyScores (prediction # rest) spotBestTide today tomorrow =
     (if time prediction < today \<or> time prediction \<ge> tomorrow then
        collectHourlyScores rest spotBestTide today tomorrow
      else
        (let hour = getHours (time prediction)
         in if hour < 5 \<or> hour > 20 then collectHourlyScores rest spotBestTide today tomorrow
            else
              (let tideHeight = height prediction;
                   tideScore = scoreTideForWindow tideHeight spotBestTide;
                   score = 0 + tideScore * 0.5;
                   score = score + windPatternScore hour
               in \<lparr>hsHour = hour, hsScore = score, hsTideHeight = tideHeight\<rparr>
                    # collectHourlyScores rest spotBestTide today tomorrow)))"

text \<open>The body of the inner loop at index \<open>i\<close>: \<^verbatim>\<open>slice(i, i + windowSize)\<close>, the two
  \<^verbatim>\<open>reduce\<close> sums, and the strict comparison with the best so far.\<close>

definition considerWindow :: "HourlyScore list \<Rightarrow> nat \<Rightarrow> nat \<Rightarrow> BestWindow \<Rightarrow> BestWindow" where
  "considerWindow hourlyScores windowSize i bestWindow =
     (let window = take windowSize (drop i hourlyScores);
          avgScore' = foldl (\<lambda>sum h. sum + hsScore h) 0 window / real windowSize;
          avgTide' = foldl (\<lambda>sum h. sum + hsTideHeight h) 0 window / real windowSize
      in if avgScore' > avgScore bestWindow then
           \<lparr>startHour = hsHour (window ! 0),
            endHour = hsHour (window ! (length window - 1)) + 1,
            avgScore = avgScore',
            avgTide = avgTide'\<rparr>
         else bestWindow)"

text \<open>\<^verbatim>\<open>for (let i = 0; i <= hourlyScores.length - windowSize; i++)\<close>: no index at all when the
  list is shorter than the window.\<close>

definition slideWindow :: "HourlyScore list \<Rightarrow> nat \<Rightarrow> BestWindow \<Rightarrow> BestWindow" where
  "slideWindow hourlyScores windowSize bestWindow =
     fold (considerWindow hourlyScores windowSize)
       [0 ..< Suc (length hourlyScores) - windowSize] bestWindow"

text \<open>\<^verbatim>\<open>for (let windowSize = 3; windowSize >= 2; windowSize--)\<close>, from the initial
  \<^verbatim>\<open>{ startHour: 6, endHour: 9, avgScore: 0, avgTide: 0 }\<close>.\<close>

definition findBestWindow :: "HourlyScore list \<Rightarrow> BestWindow" where
  "findBestWindow hourlyScores =
     slideWindow hourlyScores 2
       (slideWindow hourlyScores 3 \<lparr>startHour = 6, endHour = 9, avgScore = 0, avgTide = 0\<rparr>)"

text \<open>The hours of today that enter the search, as the source filters them.\<close>

definition surfableHours :: "TideData \<Rightarrow> BestTide \<Rightarrow> int \<Rightarrow> HourlyScore list" where
  "surfableHours tideData spotBestTide now =
     (let today = startOfDay now;
          tomorrow = today + msPerDay
      in collectHourlyScores (hourly tideData) spotBestTide today tomorrow)"

text \<open>The window the function settles on, before it is formatted; \<open>None\<close> is \<^verbatim>\<open>null\<close>.\<close>

definition bestWindowOf :: "TideData \<Rightarrow> BestTide \<Rightarrow> int \<Rightarrow> BestWindow option" where
  "bestWindowOf tideData spotBestTide now =
     (if length (hourly tideData) = 0 then None
      else
        (let hourlyScores = surfableHours tideData spotBestTide now
         in if length hourlyScores = 0 then None
            else Some (findBestWindow hourlyScores)))"

record TimeWindow =
  start :: string
  end' :: string
  reason :: string

definition windowReason :: "BestWindow \<Rightarrow> string" where
  "windowReason bestWindow =
     (let isEarlyMorning = (startHour bestWindow \<ge> 5 \<and> startHour bestWindow < 9);
          isEvening = (startHour bestWindow \<ge> 17);
          tideDesc = getTideDescription (avgTide bestWindow)
      in if isEarlyMorning then tideDesc @ '' + light morning winds''
         else if isEvening then tideDesc @ '' + evening glass-off''
         else tideDesc @ '' conditions'')"

definition calculateBestTimeWindow :: "TideData \<Rightarrow> BestTide \<Rightarrow> int \<Rightarrow> TimeWindow option" where
  "calculateBestTimeWindow tideData spotBestTide now =
     (case bestWindowOf tideData spotBestTide now of
        None \<Rightarrow> None
      | Some bestWindow \<Rightarrow>
          Some \<lparr>start = formatHour (startHour bestWindow),
                end' = formatHour (endHour bestWindow),
                reason = windowReason bestWindow\<rparr>)"

text \<open>What the specification calls an hour of the day's series in the surfable range: a
  prediction of today whose hour is one of 5..20.\<close>

definition contributesSurfableHour :: "int \<Rightarrow> TidePrediction \<Rightarrow> bool" where
  "contributesSurfableHour now p =
     (startOfDay now \<le> time p \<and> time p < startOfDay now + msPerDay
      \<and> 5 \<le> getHours (time p) \<and> getHours (time p) \<le> 20)"

text \<open>The hours a window of the search can have: it starts at an hour of 5..20 and ends
  one hour after an hour of 5..20.\<close>

definition windowWithinHours :: "BestWindow \<Rightarrow> bool" where
  "windowWithinHours w =
     (5 \<le> startHour w \<and> startHour w \<le> 20 \<and> 6 \<le> endHour w \<and> endHour w \<le> 21)"

text \<open>An input for the examples: a day of hourly predictions, one per hour from midnight
  (time 0), with these heights.\<close>

definition hourlySeries :: "real list \<Rightarrow> TidePrediction list" where
  "hourlySeries heights =
     map (\<lambda>(h, x). \<lparr>time = int h * msPerHour, height = x, type' = None\<rparr>)
       (zip [0 ..< length heights] heights)"

section \<open>\<^verbatim>\<open>lib/api/tides.ts\<close>: the current tide height\<close>

text \<open>
  \<^verbatim>\<open>
  for (let i = 0; i < hourly.length - 1; i++) {
    const current = new Date(hourly[i].time)
    const next = new Date(hourly[i + 1].time)
    if (now >= current && now < next) {
      const progress = (now.getTime() - current.getTime()) / (next.getTime() - current.getTime())
      return hourly[i].height + progress * (hourly[i + 1].height - hourly[i].height)
    }
  }
  \<close>
  The loop from index \<open>i\<close> on: \<open>Some\<close> the value it returns, \<open>None\<close> when it runs to its
  end without returning.
\<close>

function bracketFrom :: "TidePrediction list \<Rightarrow> int \<Rightarrow> nat \<Rightarrow> real option" where
  "bracketFrom hourly' now i =
     (if i + 1 < length hourly' then
        (let current = time (hourly' ! i);
             next = time (hourly' ! (i + 1))
         in if now \<ge> current \<and> now < next then
              (let progress = real_of_int (now - current) / real_of_int (next - current)
               in Some (height (hourly' ! i)
                        + progress * (height (hourly' ! (i + 1)) - height (hourly' ! i))))
            else bracketFrom hourly' now (i + 1))
      else None)"
  by pat_completeness auto
termination
  by (relation "measure (\<lambda>(hourly', now, i). length hourly' - i)") auto

declare bracketFrom.simps [simp del]

definition getCurrentTideHeight :: "TideData \<Rightarrow> int \<Rightarrow> real" where
  "getCurrentTideHeight tideData now =
     (case bracketFrom (hourly tideData) now 0 of
        Some h \<Rightarrow> h
      | None \<Rightarrow> (if length (hourly tideData) > 0 then height (hourly tideData ! 0) else 0))"

section \<open>\<^verbatim>\<open>lib/sun.ts\<close>: the dawn patrol status\<close>

record SunTimes =
  sunrise :: int
  sunset :: int
  firstLight :: int
  lastLight :: int

text \<open>\<^verbatim>\<open>toLocaleTimeString('en-US', { hour: 'numeric', minute: '2-digit', hour12: true })\<close>,
  as the source documents it: \<^verbatim>\<open>"6:45 AM"\<close>.\<close>

definition formatTime :: "int \<Rightarrow> string" where
  "formatTime date =
     (let h = getHours date;
          m = nat (getMinutes date);
          h12 = (if h mod 12 = 0 then 12 else h mod 12)
      in showNat h12 @ '':'' @ (if m < 10 then ''0'' else []) @ showNat m
           @ (if h < 12 then '' AM'' else '' PM''))"

definition calculateLeaveBy :: "int \<Rightarrow> int \<Rightarrow> int \<Rightarrow> int" where
  "calculateLeaveBy targetTime driveMinutes bufferMinutes =
     setMinutes targetTime (getMinutes targetTime - driveMinutes - bufferMinutes)"

datatype Status = TooEarly | LeaveNow | OnTheWay | Surfing | Missed

record DawnPatrol =
  status :: Status
  message :: string
  leaveBy :: "int option"

text \<open>\<^verbatim>\<open>driveMinutes?: number\<close> is an \<^typ>\<open>int option\<close> (the callers pass a rounded number
  of minutes or \<^verbatim>\<open>undefined\<close>). \<^verbatim>\<open>!driveMinutes\<close> is the truthiness test: true of
  \<^verbatim>\<open>undefined\<close> and of 0. Past that test \<^verbatim>\<open>driveMinutes\<close> is a number, \<open>the driveMinutes\<close>.\<close>

definition falsy :: "int option \<Rightarrow> bool" where
  "falsy driveMinutes = (case driveMinutes of None \<Rightarrow> True | Some d \<Rightarrow> d = 0)"

definition getDawnPatrolStatus :: "int \<Rightarrow> SunTimes \<Rightarrow> int option \<Rightarrow> DawnPatrol" where
  "getDawnPatrolStatus now sunTimes driveMinutes =
     (let targetArrival = firstLight sunTimes
      in if falsy driveMinutes then
           (if now < firstLight sunTimes then
              \<lparr>status = TooEarly,
               message = ''First light at '' @ formatTime (firstLight sunTimes),
               leaveBy = None\<rparr>
            else if now < sunrise sunTimes then
              \<lparr>status = Surfing,
               message = ''Sunrise at '' @ formatTime (sunrise sunTimes),
               leaveBy = None\<rparr>
            else
              \<lparr>status = Surfing,
               message = ''Sun is up until '' @ formatTime (sunset sunTimes),
               leaveBy = None\<rparr>)
         else
           (let d = the driveMinutes;
                leaveBy' = calculateLeaveBy targetArrival d 10;
                arriveBy = setMinutes leaveBy' (getMinutes leaveBy' + d + 10)
            in if now < leaveBy' - 30 * 60 * 1000 then
                 \<lparr>status = TooEarly,
                  message = ''Leave by '' @ formatTime leaveBy' @ '' for first light'',
                  leaveBy = Some leaveBy'\<rparr>
               else if now < leaveBy' then
                 (let minsUntilLeave = round (real_of_int (leaveBy' - now) / 1000 / 60)
                  in \<lparr>status = LeaveNow,
                      message = ''Leave in '' @ showInt minsUntilLeave
                                  @ '' min for dawn patrol!'',
                      leaveBy = Some leaveBy'\<rparr>)
               else if now < arriveBy then
                 \<lparr>status = OnTheWay,
                  message = ''Go now to catch first light!'',
                  leaveBy = Some leaveBy'\<rparr>
               else if now < sunset sunTimes then
                 \<lparr>status = Surfing,
                  message = ''Sun up until '' @ formatTime (sunset sunTimes),
                  leaveBy = None\<rparr>
               else \<lparr>status = Missed, message = ''Sun has set'', leaveBy = None\<rparr>))"

section \<open>\<^verbatim>\<open>lib/spots.ts\<close>: the historical percentile\<close>

record MonthData =
  avgScoreOf :: real
  avgWaveHeight :: real
  goodDaysPct :: real

text \<open>\<^verbatim>\<open>HISTORICAL_AVERAGES: Record<number, ...>\<close>, keyed by \<^verbatim>\<open>Date.getMonth()\<close> (0 is
  January). The field \<^verbatim>\<open>avgScore\<close> is \<open>avgScoreOf\<close> here.\<close>

definition HISTORICAL_AVERAGES :: "nat \<rightharpoonup> MonthData" where
  "HISTORICAL_AVERAGES =
     [0 \<mapsto> \<lparr>avgScoreOf = 68, avgWaveHeight = 6.5, goodDaysPct = 45\<rparr>,
      1 \<mapsto> \<lparr>avgScoreOf = 65, avgWaveHeight = 5.8, goodDaysPct = 40\<rparr>,
      2 \<mapsto> \<lparr>avgScoreOf = 58, avgWaveHeight = 4.5, goodDaysPct = 35\<rparr>,
      3 \<mapsto> \<lparr>avgScoreOf = 52, avgWaveHeight = 3.5, goodDaysPct = 30\<rparr>,
      4 \<mapsto> \<lparr>avgScoreOf = 48, avgWaveHeight = 3.0, goodDaysPct = 25\<rparr>,
      5 \<mapsto> \<lparr>avgScoreOf = 45, avgWaveHeight = 2.5, goodDaysPct = 20\<rparr>,
      6 \<mapsto> \<lparr>avgScoreOf = 42, avgWaveHeight = 2.2, goodDaysPct = 18\<rparr>,
      7 \<mapsto> \<lparr>avgScoreOf = 44, avgWaveHeight = 2.5, goodDaysPct = 20\<rparr>,
      8 \<mapsto> \<lparr>avgScoreOf = 55, avgWaveHeight = 3.5, goodDaysPct = 35\<rparr>,
      9 \<mapsto> \<lparr>avgScoreOf = 65, avgWaveHeight = 5.0, goodDaysPct = 45\<rparr>,
      10 \<mapsto> \<lparr>avgScoreOf = 70, avgWaveHeight = 6.0, goodDaysPct = 50\<rparr>,
      11 \<mapsto> \<lparr>avgScoreOf = 72, avgWaveHeight = 7.0, goodDaysPct = 52\<rparr>]"

text \<open>\<^verbatim>\<open>month\<close> is \<^verbatim>\<open>new Date().getMonth()\<close>, an argument here. Reading \<^verbatim>\<open>avgScore\<close> of a
  month the table does not have throws a \<^verbatim>\<open>TypeError\<close>: the result \<open>None\<close>.\<close>

definition getHistoricalPercentile :: "nat \<Rightarrow> real \<Rightarrow> int option" where
  "getHistoricalPercentile month score' =
     (case HISTORICAL_AVERAGES month of
        None \<Rightarrow> None
      | Some monthData \<Rightarrow>
          (let stdDev = 15;
               zScore = (score' - avgScoreOf monthData) / stdDev;
               percentile = round (50 * (1 + tanh (zScore * 0.8)))
           in Some (max 1 (min 99 percentile))))"

text \<open>The mapping of the specification: the z-score of the candidate score against the
  month's average with the fixed standard deviation 15, the percentile
  \<open>50 (1 + tanh (0.8 z))\<close>, rounded, then clamped to 1..99.\<close>

definition specPercentile :: "real \<Rightarrow> real \<Rightarrow> int" where
  "specPercentile monthAvg score' =
     (let z = (score' - monthAvg) / 15
      in min 99 (max 1 (round (50 * (1 + tanh (0.8 * z))))))"

section \<open>Properties of the rounding to binary64\<close>

lemma roundTiesToEven_of_int: "roundTiesToEven (of_int m) = m"
  by (simp add: roundTiesToEven_def)


lemma roundTiesToEven_le: "y \<le> of_int m \<Longrightarrow> roundTiesToEven y \<le> m"
proof -
  assume y: "y \<le> of_int m"
  show ?thesis
  proof (cases "y = of_int m")
    case True
    then show ?thesis by (simp add: roundTiesToEven_of_int)
  next
    case False
    with y have "y < of_int m" by simp
    then have "\<lfloor>y\<rfloor> < m" by (simp add: floor_less_iff)
    then show ?thesis by (simp add: roundTiesToEven_def Let_def)
  qed
qed












section \<open>Properties of \<^verbatim>\<open>normalizeAngle\<close>\<close>

lemma normalizeAngle_up_ge: "- 180 \<le> normalizeAngle_up x"
proof (induction x rule: normalizeAngle_up.induct)
  case (1 n)
  show ?case
  proof (cases "n < - 180")
    case True
    with 1 show ?thesis by (subst normalizeAngle_up.simps) simp
  next
    case False
    then show ?thesis by (subst normalizeAngle_up.simps) simp
  qed
qed

lemma normalizeAngle_down_le: "normalizeAngle_down x \<le> 180"
proof (induction x rule: normalizeAngle_down.induct)
  case (1 n)
  show ?case
  proof (cases "n > 180")
    case True
    with 1 show ?thesis by (subst normalizeAngle_down.simps) simp
  next
    case False
    then show ?thesis by (subst normalizeAngle_down.simps) simp
  qed
qed

lemma normalizeAngle_down_ge: "- 180 \<le> x \<Longrightarrow> - 180 \<le> normalizeAngle_down x"
proof (induction x rule: normalizeAngle_down.induct)
  case (1 n)
  show ?case
  proof (cases "n > 180")
    case True
    with 1 have "- 180 \<le> normalizeAngle_down (n - 360)" by simp
    with True show ?thesis by (subst normalizeAngle_down.simps) simp
  next
    case False
    with 1 show ?thesis by (subst normalizeAngle_down.simps) simp
  qed
qed

lemma normalizeAngle_up_id: "- 180 \<le> x \<Longrightarrow> normalizeAngle_up x = x"
  by (subst normalizeAngle_up.simps) simp

lemma normalizeAngle_down_id: "x \<le> 180 \<Longrightarrow> normalizeAngle_down x = x"
  by (subst normalizeAngle_down.simps) simp

lemma normalizeAngle_range: "- 180 \<le> normalizeAngle x \<and> normalizeAngle x \<le> 180"
  unfolding normalizeAngle_def
  by (simp add: normalizeAngle_down_le normalizeAngle_down_ge normalizeAngle_up_ge)

lemma normalizeAngle_fixed: "- 180 \<le> x \<Longrightarrow> x \<le> 180 \<Longrightarrow> normalizeAngle x = x"
  unfolding normalizeAngle_def by (simp add: normalizeAngle_up_id normalizeAngle_down_id)




subsection \<open>The loops in binary64\<close>

























section \<open>Properties of \<^verbatim>\<open>scoreWind\<close>\<close>

lemma windSpeedScore_antimono: "s1 \<le> s2 \<Longrightarrow> windSpeedScore s2 \<le> windSpeedScore s1"
  by (simp add: windSpeedScore_def)

lemma windSpeedScore_nonneg: "0 \<le> windSpeedScore s"
  by (simp add: windSpeedScore_def)

lemma windDirectionMultiplier_bounds:
  "0 \<le> windDirectionMultiplier a \<and> windDirectionMultiplier a \<le> 1"
  by (simp add: windDirectionMultiplier_def)

lemma scoreWind_unfold:
  "scoreWind speed direction offshore =
     round (windSpeedScore speed *
            (if speed < 5
             then max 0.9 (windDirectionMultiplier \<bar>normalizeAngle (direction - offshore)\<bar>)
             else windDirectionMultiplier \<bar>normalizeAngle (direction - offshore)\<bar>))"
  by (simp add: scoreWind_def Let_def)

lemma scoreWind_speed_mono:
  assumes "s1 \<le> s2"
  shows "scoreWind s2 direction offshore \<le> scoreWind s1 direction offshore"
proof -
  define m where "m = windDirectionMultiplier \<bar>normalizeAngle (direction - offshore)\<bar>"
  define e where "e = (\<lambda>s::real. if s < 5 then max 0.9 m else m)"
  have m: "0 \<le> m" "m \<le> 1"
    using windDirectionMultiplier_bounds by (simp_all add: m_def)
  have e_mono: "e s2 \<le> e s1"
    using assms by (simp add: e_def)
  have e_nonneg: "0 \<le> e s2"
    using m by (auto simp: e_def max_def)
  have "windSpeedScore s2 * e s2 \<le> windSpeedScore s1 * e s1"
    by (rule mult_mono [OF windSpeedScore_antimono [OF assms] e_mono windSpeedScore_nonneg e_nonneg])
  then have "round (windSpeedScore s2 * e s2) \<le> round (windSpeedScore s1 * e s1)"
    by (rule round_mono)
  then show ?thesis
    unfolding scoreWind_unfold e_def m_def .
qed

lemma scoreWind_offshore: "scoreWind speed offshore offshore = round (windSpeedScore speed)"
  by (simp add: scoreWind_unfold normalizeAngle_fixed windDirectionMultiplier_def)

lemma scoreWind_le_offshore:
  "scoreWind speed direction offshore \<le> scoreWind speed offshore offshore"
proof -
  define m where "m = windDirectionMultiplier \<bar>normalizeAngle (direction - offshore)\<bar>"
  have m: "0 \<le> m" "m \<le> 1"
    using windDirectionMultiplier_bounds by (simp_all add: m_def)
  have "(if speed < 5 then max 0.9 m else m) \<le> 1"
    using m by simp
  then have "windSpeedScore speed * (if speed < 5 then max 0.9 m else m)
             \<le> windSpeedScore speed * 1"
    by (rule mult_left_mono) (rule windSpeedScore_nonneg)
  then have "round (windSpeedScore speed * (if speed < 5 then max 0.9 m else m))
             \<le> round (windSpeedScore speed)"
    using round_mono by fastforce
  then show ?thesis
    unfolding scoreWind_offshore scoreWind_unfold m_def .
qed

lemma scoreWind_max_iff:
  assumes "5 \<le> speed"
  shows "scoreWind speed direction offshore = scoreWind speed offshore offshore
         \<longleftrightarrow> \<bar>normalizeAngle (direction - offshore)\<bar> \<le> 45"
proof -
  define a where "a = \<bar>normalizeAngle (direction - offshore)\<bar>"
  have "round (windSpeedScore speed * windDirectionMultiplier a) = round (windSpeedScore speed)
        \<longleftrightarrow> a \<le> 45"
    using assms by (simp add: windSpeedScore_def windDirectionMultiplier_def round_def)
  then show ?thesis
    using assms by (simp add: scoreWind_offshore) (simp add: scoreWind_unfold a_def)
qed

text \<open>
  Claim C8, as stated: \<^verbatim>\<open>scoreWind\<close> is non-increasing in the speed, and for a fixed speed of
  at least 5 mph it attains its maximum over the directions exactly when the wind direction
  equals the offshore bearing, at no other direction. The direction multiplier is 1.0
  on the whole bucket of circular distances up to 45 degrees, so a wind 30 degrees off the
  offshore bearing scores the same maximum.
\<close>

theorem C8_scoreWind_counterexample:
  "scoreWind 10 30 0 = scoreWind 10 0 0 \<and> (30::real) \<noteq> 0 \<and> \<bar>normalizeAngle (30 - 0)\<bar> \<noteq> 0"
  by (simp add: scoreWind_def windSpeedScore_def windDirectionMultiplier_def normalizeAngle_fixed)

text \<open>
  Claim C8, amended: for every fixed wind direction and offshore bearing \<^verbatim>\<open>scoreWind\<close> is
  non-increasing in the speed; for every fixed speed its value at the offshore bearing is
  the maximum over all directions; and for every fixed speed of at least 5 mph that maximum
  is attained exactly at the directions whose circular distance to the offshore bearing
  is at most 45 degrees.
\<close>

theorem C8_scoreWind:
  "(s1 \<le> s2 \<longrightarrow> scoreWind s2 direction offshore \<le> scoreWind s1 direction offshore)
   \<and> scoreWind speed direction offshore \<le> scoreWind speed offshore offshore
   \<and> (5 \<le> speed \<longrightarrow>
        (scoreWind speed direction offshore = scoreWind speed offshore offshore
         \<longleftrightarrow> \<bar>normalizeAngle (direction - offshore)\<bar> \<le> 45))"
  using scoreWind_speed_mono scoreWind_le_offshore scoreWind_max_iff by blast

theorem C8_scoreWind_witness:
  "(4::real) \<le> 12 \<and> scoreWind 12 100 45 \<le> scoreWind 4 100 45
   \<and> (5::real) \<le> 12
   \<and> scoreWind 12 80 45 = scoreWind 12 45 45 \<and> \<bar>normalizeAngle (80 - 45)\<bar> \<le> 45
   \<and> scoreWind 12 100 45 < scoreWind 12 45 45"
  using C8_scoreWind [of 4 12 100 45 12]
  by (simp add: scoreWind_def windSpeedScore_def windDirectionMultiplier_def normalizeAngle_fixed
      round_def)

section \<open>Properties of \<^verbatim>\<open>calculateSpotScore\<close>\<close>






text \<open>The worked example of the specification (medium board, advanced surfer) on the code:
  the sub-scores are 100, 75, 100, 100 and 100, the score is 95. On the sub-scores 92, 55,
  3, 100 and 100 the rounded sum is \<open>59.49999999999999\<close> and the score 59, where the same
  formula in exact arithmetic is 59.5 and rounds to 60.\<close>

lemma weightedSum_examples:
  "weightedSum 100 75 100 100 100 = 95"
  "weightedSum 92 55 3 100 100 = 8373880557142015 / 2 ^ 47"
  by code_simp+

lemma calculateSpotScore_example:
  "score (calculateSpotScore
      \<lparr>waveHeight = 4.5, wavePeriod = 12, swellDirection = 280, windSpeed = 4,
       windDirection = 50, tideHeight = 2.5, tidePhase = Rising\<rparr>
      \<lparr>optimalSwellDirections = [270, 290, 310], offshoreWindDirection = 45, bestTide = TideMid\<rparr>
      \<lparr>surferType = ''mediumboard'', skillLevel = ''advanced''\<rparr>) = 95"
  by (simp add: calculateSpotScore_def Let_def scoreWaveHeight_def lookupSkillConfig_def
      SKILL_CONFIGS_def scoreWaveHeightWith_def scoreWavePeriod_def scoreWind_def
      windSpeedScore_def windDirectionMultiplier_def scoreSwellDirection_def
      normalizeAngle_fixed round_def weightedSum_examples)

lemma calculateSpotScore_rounding_example:
  "score (calculateSpotScore
      \<lparr>waveHeight = 2.796875, wavePeriod = 9, swellDirection = 270, windSpeed = 30,
       windDirection = 100, tideHeight = 3, tidePhase = Rising\<rparr>
      \<lparr>optimalSwellDirections = [270], offshoreWindDirection = 0, bestTide = TideMid\<rparr>
      \<lparr>surferType = ''mediumboard'', skillLevel = ''advanced''\<rparr>) = 59"
  "exactWeightedScore 92 55 3 100 100 = 60"
  by (simp_all add: calculateSpotScore_def Let_def scoreWaveHeight_def lookupSkillConfig_def
      SKILL_CONFIGS_def scoreWaveHeightWith_def scoreWavePeriod_def scoreWind_def
      windSpeedScore_def windDirectionMultiplier_def scoreSwellDirection_def
      normalizeAngle_fixed round_def weightedSum_examples exactWeightedScore_def)

section \<open>Properties of \<^verbatim>\<open>scoreWaveHeight\<close>\<close>

lemma scoreWaveHeightWith_ideal:
  "minIdeal c \<le> h \<Longrightarrow> h \<le> maxIdeal c \<Longrightarrow> scoreWaveHeightWith c h = 100"
  by (simp add: scoreWaveHeightWith_def)

lemma scoreWaveHeightWith_above:
  assumes "maxIdeal c < h" "h \<le> maxSurfable c" "minIdeal c \<le> maxIdeal c"
  shows "scoreWaveHeightWith c h
         = round (100 - ((h - maxIdeal c) / (maxSurfable c - maxIdeal c)) * 50)"
  using assms by (simp add: scoreWaveHeightWith_def Let_def)

lemma scoreWaveHeightWith_too_big:
  assumes "maxSurfable c < h" "maxIdeal c \<le> maxSurfable c" "minIdeal c \<le> maxIdeal c"
    "minSurfable c \<le> minIdeal c"
  shows "scoreWaveHeightWith c h = max 0 (round (30 - (h - maxSurfable c) * 10))"
  using assms by (simp add: scoreWaveHeightWith_def Let_def)

lemma scoreWaveHeightWith_below:
  assumes "minSurfable c \<le> h" "h < minIdeal c" "minIdeal c \<le> maxIdeal c"
  shows "scoreWaveHeightWith c h
         = round (100 - ((minIdeal c - h) / (minIdeal c - minSurfable c)) * 40)"
  using assms by (simp add: scoreWaveHeightWith_def Let_def)

lemma scoreWaveHeightWith_too_small:
  assumes "h < minSurfable c" "minSurfable c \<le> minIdeal c" "minIdeal c \<le> maxIdeal c"
  shows "scoreWaveHeightWith c h = max 0 (round ((h / minSurfable c) * 30))"
  using assms by (simp add: scoreWaveHeightWith_def Let_def)

lemma round_le_int: "x \<le> real_of_int n \<Longrightarrow> round x \<le> n"
  using round_mono [of x "real_of_int n"] by simp

lemma round_ge_int: "real_of_int n \<le> x \<Longrightarrow> n \<le> round x"
  using round_mono [of "real_of_int n" x] by simp

lemma scoreWaveHeightWith_le_100:
  assumes "0 < minSurfable c" "minSurfable c \<le> minIdeal c" "minIdeal c \<le> maxIdeal c"
    "maxIdeal c \<le> maxSurfable c"
  shows "scoreWaveHeightWith c h \<le> 100"
proof -
  consider "minIdeal c \<le> h \<and> h \<le> maxIdeal c" | "maxIdeal c < h \<and> h \<le> maxSurfable c"
    | "maxSurfable c < h" | "minSurfable c \<le> h \<and> h < minIdeal c" | "h < minSurfable c"
    by linarith
  then show ?thesis
  proof cases
    case 1
    then show ?thesis by (simp add: scoreWaveHeightWith_ideal)
  next
    case 2
    define q where "q = (h - maxIdeal c) / (maxSurfable c - maxIdeal c)"
    have "0 \<le> q" using 2 by (simp add: q_def)
    then have "100 - q * 50 \<le> real_of_int 100" by simp
    then have "round (100 - q * 50) \<le> 100" by (rule round_le_int)
    then show ?thesis
      using 2 assms unfolding q_def by (simp only: scoreWaveHeightWith_above)
  next
    case 3
    then have "30 - (h - maxSurfable c) * 10 \<le> real_of_int 30" by simp
    then have "round (30 - (h - maxSurfable c) * 10) \<le> 30" by (rule round_le_int)
    then show ?thesis
      using 3 assms by (simp add: scoreWaveHeightWith_too_big)
  next
    case 4
    define q where "q = (minIdeal c - h) / (minIdeal c - minSurfable c)"
    have "0 \<le> q" using 4 by (simp add: q_def)
    then have "100 - q * 40 \<le> real_of_int 100" by simp
    then have "round (100 - q * 40) \<le> 100" by (rule round_le_int)
    then show ?thesis
      using 4 assms unfolding q_def by (simp only: scoreWaveHeightWith_below)
  next
    case 5
    define q where "q = h / minSurfable c"
    have "q \<le> 1" using 5 assms by (simp add: q_def)
    then have "q * 30 \<le> real_of_int 30" by simp
    then have "round (q * 30) \<le> 30" by (rule round_le_int)
    then have "max 0 (round (q * 30)) \<le> 100" by simp
    then show ?thesis
      using 5 assms unfolding q_def by (simp only: scoreWaveHeightWith_too_small)
  qed
qed

text \<open>Above the ideal range the score falls as the height grows.\<close>

lemma scoreWaveHeightWith_above_mono:
  assumes valid: "0 < minSurfable c" "minSurfable c \<le> minIdeal c" "minIdeal c \<le> maxIdeal c"
    "maxIdeal c \<le> maxSurfable c"
    and h: "maxIdeal c \<le> h1" "h1 \<le> h2"
  shows "scoreWaveHeightWith c h2 \<le> scoreWaveHeightWith c h1"
proof -
  define q where "q = (\<lambda>x. (x - maxIdeal c) / (maxSurfable c - maxIdeal c))"
  have above: "scoreWaveHeightWith c x = round (100 - q x * 50)"
    if "maxIdeal c < x" "x \<le> maxSurfable c" for x
    using that valid unfolding q_def by (simp only: scoreWaveHeightWith_above)
  have too_big: "scoreWaveHeightWith c x = max 0 (round (30 - (x - maxSurfable c) * 10))"
    if "maxSurfable c < x" for x
    using that valid by (simp only: scoreWaveHeightWith_too_big)
  consider (ideal) "h1 = maxIdeal c"
    | (both) "maxIdeal c < h1" "h2 \<le> maxSurfable c"
    | (cross) "maxIdeal c < h1" "h1 \<le> maxSurfable c" "maxSurfable c < h2"
    | (big) "maxSurfable c < h1"
    using h by linarith
  then show ?thesis
  proof cases
    case ideal
    then have "scoreWaveHeightWith c h1 = 100"
      using valid by (simp add: scoreWaveHeightWith_ideal)
    then show ?thesis
      using scoreWaveHeightWith_le_100 [OF valid, of h2] by simp
  next
    case both
    have r: "0 < maxSurfable c - maxIdeal c" using both h by simp
    have "q h1 \<le> q h2"
      using r h by (simp add: q_def divide_right_mono)
    then have "100 - q h2 * 50 \<le> 100 - q h1 * 50" by simp
    then have "round (100 - q h2 * 50) \<le> round (100 - q h1 * 50)"
      by (rule round_mono)
    moreover have "maxIdeal c < h2" "h1 \<le> maxSurfable c" using both h by simp_all
    ultimately show ?thesis
      using both by (simp only: above)
  next
    case cross
    have r: "0 < maxSurfable c - maxIdeal c" using cross by simp
    have "q h1 \<le> 1" using r cross by (simp add: q_def)
    then have "real_of_int 50 \<le> 100 - q h1 * 50" by simp
    then have "50 \<le> round (100 - q h1 * 50)" by (rule round_ge_int)
    then have lo: "50 \<le> scoreWaveHeightWith c h1"
      using cross by (simp only: above)
    have "30 - (h2 - maxSurfable c) * 10 \<le> real_of_int 30" using cross by simp
    then have "round (30 - (h2 - maxSurfable c) * 10) \<le> 30" by (rule round_le_int)
    then have "max 0 (round (30 - (h2 - maxSurfable c) * 10)) \<le> 30" by simp
    then have "scoreWaveHeightWith c h2 \<le> 30"
      using cross by (simp only: too_big)
    with lo show ?thesis by simp
  next
    case big
    have "30 - (h2 - maxSurfable c) * 10 \<le> 30 - (h1 - maxSurfable c) * 10"
      using h by simp
    then have "round (30 - (h2 - maxSurfable c) * 10) \<le> round (30 - (h1 - maxSurfable c) * 10)"
      by (rule round_mono)
    then have "max 0 (round (30 - (h2 - maxSurfable c) * 10))
               \<le> max 0 (round (30 - (h1 - maxSurfable c) * 10))"
      by (rule max.mono [OF order_refl])
    moreover have "maxSurfable c < h2" using big h by simp
    ultimately show ?thesis
      using big by (simp only: too_big)
  qed
qed

text \<open>Below the ideal range the score grows with the height.\<close>

lemma scoreWaveHeightWith_below_mono:
  assumes valid: "0 < minSurfable c" "minSurfable c \<le> minIdeal c" "minIdeal c \<le> maxIdeal c"
    "maxIdeal c \<le> maxSurfable c"
    and h: "h1 \<le> h2" "h2 \<le> minIdeal c"
  shows "scoreWaveHeightWith c h1 \<le> scoreWaveHeightWith c h2"
proof -
  define q where "q = (\<lambda>x. (minIdeal c - x) / (minIdeal c - minSurfable c))"
  define p where "p = (\<lambda>x. x / minSurfable c)"
  have below: "scoreWaveHeightWith c x = round (100 - q x * 40)"
    if "minSurfable c \<le> x" "x < minIdeal c" for x
    using that valid unfolding q_def by (simp only: scoreWaveHeightWith_below)
  have tiny: "scoreWaveHeightWith c x = max 0 (round (p x * 30))"
    if "x < minSurfable c" for x
    using that valid unfolding p_def by (simp only: scoreWaveHeightWith_too_small)
  consider (ideal) "h2 = minIdeal c"
    | (both) "minSurfable c \<le> h1" "h2 < minIdeal c"
    | (cross) "h1 < minSurfable c" "minSurfable c \<le> h2" "h2 < minIdeal c"
    | (small) "h2 < minSurfable c"
    using h by linarith
  then show ?thesis
  proof cases
    case ideal
    then have "scoreWaveHeightWith c h2 = 100"
      using valid by (simp add: scoreWaveHeightWith_ideal)
    then show ?thesis
      using scoreWaveHeightWith_le_100 [OF valid, of h1] by simp
  next
    case both
    have r: "0 < minIdeal c - minSurfable c" using both h by simp
    have "q h2 \<le> q h1"
      using r h by (simp add: q_def divide_right_mono)
    then have "100 - q h1 * 40 \<le> 100 - q h2 * 40" by simp
    then have "round (100 - q h1 * 40) \<le> round (100 - q h2 * 40)"
      by (rule round_mono)
    moreover have "h1 < minIdeal c" "minSurfable c \<le> h2" using both h by simp_all
    ultimately show ?thesis
      using both by (simp only: below)
  next
    case cross
    have r: "0 < minIdeal c - minSurfable c" using cross by simp
    have "q h2 \<le> 1" using r cross by (simp add: q_def)
    then have "real_of_int 60 \<le> 100 - q h2 * 40" by simp
    then have "60 \<le> round (100 - q h2 * 40)" by (rule round_ge_int)
    then have lo: "60 \<le> scoreWaveHeightWith c h2"
      using cross by (simp only: below)
    have "p h1 \<le> 1" using cross valid by (simp add: p_def)
    then have "p h1 * 30 \<le> real_of_int 30" by simp
    then have "round (p h1 * 30) \<le> 30" by (rule round_le_int)
    then have "max 0 (round (p h1 * 30)) \<le> 30" by simp
    then have "scoreWaveHeightWith c h1 \<le> 30"
      using cross by (simp only: tiny)
    with lo show ?thesis by simp
  next
    case small
    have "p h1 \<le> p h2"
      using h valid by (simp add: p_def divide_right_mono)
    then have "p h1 * 30 \<le> p h2 * 30" by simp
    then have "round (p h1 * 30) \<le> round (p h2 * 30)"
      by (rule round_mono)
    then have "max 0 (round (p h1 * 30)) \<le> max 0 (round (p h2 * 30))"
      by (rule max.mono [OF order_refl])
    moreover have "h1 < minSurfable c" using small h by simp
    ultimately show ?thesis
      using small by (simp only: tiny)
  qed
qed

text \<open>Every cell of the table is ordered, with a positive lower limit.\<close>

lemma SKILL_CONFIGS_valid:
  assumes "lookupSkillConfig board level = Some c"
  shows "0 < minSurfable c \<and> minSurfable c \<le> minIdeal c \<and> minIdeal c \<le> maxIdeal c
         \<and> maxIdeal c \<le> maxSurfable c"
  using assms
  by (auto simp: lookupSkillConfig_def SKILL_CONFIGS_def split: if_splits)

text \<open>
  Claim C2: for every board type and skill level of the skill-configuration table,
  \<^verbatim>\<open>scoreWaveHeight\<close> is exactly 100 at every height of the ideal range
  [minIdeal, maxIdeal]; it does not increase as the height grows above maxIdeal, and it
  does not decrease as the height grows up to minIdeal.
\<close>

theorem C2_scoreWaveHeight:
  assumes "lookupSkillConfig board level = Some config"
  shows "(minIdeal config \<le> h \<and> h \<le> maxIdeal config
            \<longrightarrow> scoreWaveHeight h board level = 100)
         \<and> (maxIdeal config \<le> h1 \<and> h1 \<le> h2
            \<longrightarrow> scoreWaveHeight h2 board level
                  \<le> scoreWaveHeight h1 board level)
         \<and> (h1 \<le> h2 \<and> h2 \<le> minIdeal config
            \<longrightarrow> scoreWaveHeight h1 board level
                  \<le> scoreWaveHeight h2 board level)"
proof -
  have eq: "scoreWaveHeight x board level = scoreWaveHeightWith config x" for x
    using assms by (simp add: scoreWaveHeight_def)
  have v: "0 < minSurfable config" "minSurfable config \<le> minIdeal config"
    "minIdeal config \<le> maxIdeal config" "maxIdeal config \<le> maxSurfable config"
    using SKILL_CONFIGS_valid [OF assms] by simp_all
  show ?thesis
    unfolding eq
    using scoreWaveHeightWith_ideal [of config h]
      scoreWaveHeightWith_above_mono [OF v, of h1 h2]
      scoreWaveHeightWith_below_mono [OF v, of h1 h2]
    by blast
qed


theorem C2_scoreWaveHeight_witness:
  "lookupSkillConfig ''longboard'' ''beginner''
     = Some \<lparr>minIdeal = 1.5, maxIdeal = 3, minSurfable = 1, maxSurfable = 5\<rparr>
   \<and> scoreWaveHeight 2 ''longboard'' ''beginner'' = 100
   \<and> scoreWaveHeight 6 ''longboard'' ''beginner'' \<le> scoreWaveHeight 4 ''longboard'' ''beginner''
   \<and> scoreWaveHeight 0.5 ''longboard'' ''beginner''
       \<le> scoreWaveHeight 1.2 ''longboard'' ''beginner''"
proof -
  have l: "lookupSkillConfig ''longboard'' ''beginner''
           = Some \<lparr>minIdeal = 1.5, maxIdeal = 3, minSurfable = 1, maxSurfable = 5\<rparr>"
    by (simp add: lookupSkillConfig_def SKILL_CONFIGS_def)
  show ?thesis
    using l C2_scoreWaveHeight [OF l, of 2 4 6] C2_scoreWaveHeight [OF l, of 2 "0.5" "1.2"]
    by simp
qed

text \<open>Values on both sides of the ideal range, and the default 50 of a pair that the
  table does not have.\<close>

lemma scoreWaveHeight_examples:
  "scoreWaveHeight 4 ''longboard'' ''beginner'' = 75"
  "scoreWaveHeight 6 ''longboard'' ''beginner'' = 20"
  "scoreWaveHeight 0.5 ''longboard'' ''beginner'' = 15"
  "scoreWaveHeight 1.2 ''longboard'' ''beginner'' = 76"
  "scoreWaveHeight 4 ''surfmat'' ''beginner'' = 50"
  by (simp_all add: scoreWaveHeight_def lookupSkillConfig_def SKILL_CONFIGS_def
      scoreWaveHeightWith_def round_def)

section \<open>Properties of \<^verbatim>\<open>getHistoricalPercentile\<close>\<close>

lemma HISTORICAL_AVERAGES_total:
  "month < 12 \<Longrightarrow> \<exists>monthData. HISTORICAL_AVERAGES month = Some monthData"
proof -
  assume "month < 12"
  then have "month = 0 \<or> month = 1 \<or> month = 2 \<or> month = 3 \<or> month = 4 \<or> month = 5
             \<or> month = 6 \<or> month = 7 \<or> month = 8 \<or> month = 9 \<or> month = 10 \<or> month = 11"
    by arith
  then show ?thesis
    by (elim disjE) (simp_all add: HISTORICAL_AVERAGES_def)
qed

lemma clamp_1_99_swap: "max 1 (min 99 p) = min 99 (max (1::int) p)"
  by simp

lemma getHistoricalPercentile_Some:
  assumes "HISTORICAL_AVERAGES month = Some monthData"
  shows "getHistoricalPercentile month s = Some (specPercentile (avgScoreOf monthData) s)"
proof -
  define p where "p = round (50 * (1 + tanh ((s - avgScoreOf monthData) / 15 * 0.8)))"
  have "getHistoricalPercentile month s = Some (max 1 (min 99 p))"
    using assms unfolding getHistoricalPercentile_def Let_def p_def by simp
  moreover have "specPercentile (avgScoreOf monthData) s = min 99 (max 1 p)"
    unfolding specPercentile_def Let_def p_def by (simp add: mult.commute)
  ultimately show ?thesis
    by (simp only: clamp_1_99_swap)
qed

lemma specPercentile_range: "1 \<le> specPercentile a s \<and> specPercentile a s \<le> 99"
  unfolding specPercentile_def Let_def by simp

text \<open>
  Claim C9: for every input score the historical percentile is
  \<open>round (50 (1 + tanh (0.8 z)))\<close> clamped to 1..99, with \<open>z = (score - monthAvg) / 15\<close>
  and \<open>monthAvg\<close> the average score of the current month in the table of twelve months;
  the result is always an integer from 1 to 99. The month is any value of
  \<^verbatim>\<open>Date.getMonth()\<close>, 0 to 11.
\<close>

theorem C9_getHistoricalPercentile:
  assumes "month < 12"
  shows "\<exists>monthData p.
           HISTORICAL_AVERAGES month = Some monthData
           \<and> getHistoricalPercentile month s = Some p
           \<and> p = specPercentile (avgScoreOf monthData) s
           \<and> 1 \<le> p \<and> p \<le> 99"
proof -
  obtain monthData where m: "HISTORICAL_AVERAGES month = Some monthData"
    using HISTORICAL_AVERAGES_total [OF assms] by blast
  show ?thesis
    using m getHistoricalPercentile_Some [OF m, of s]
      specPercentile_range [of "avgScoreOf monthData" s]
    by blast
qed

theorem C9_getHistoricalPercentile_witness:
  "(5::nat) < 12 \<and> getHistoricalPercentile 5 45 = Some 50 \<and> specPercentile 45 45 = 50"
  using C9_getHistoricalPercentile [of 5 45]
  by (simp add: getHistoricalPercentile_def HISTORICAL_AVERAGES_def specPercentile_def)

section \<open>Properties of \<^verbatim>\<open>getCurrentTideHeight\<close>\<close>

text \<open>The loop returns nothing when no pair of neighbours from \<open>i\<close> on brackets \<open>now\<close>.\<close>

lemma bracketFrom_None:
  assumes "\<And>j. i \<le> j \<Longrightarrow> j + 1 < length hs
             \<Longrightarrow> \<not> (time (hs ! j) \<le> now \<and> now < time (hs ! (j + 1)))"
  shows "bracketFrom hs now i = None"
  using assms
proof (induction "length hs - i" arbitrary: i)
  case 0
  then show ?case by (subst bracketFrom.simps) simp
next
  case (Suc n)
  then have "\<not> (time (hs ! i) \<le> now \<and> now < time (hs ! (i + 1)))" if "i + 1 < length hs"
    using that by simp
  moreover have "bracketFrom hs now (i + 1) = None"
    using Suc by (intro Suc.hyps(1)) auto
  ultimately show ?case
    by (subst bracketFrom.simps) (auto simp: Let_def)
qed

text \<open>The loop returns at the first bracketing pair.\<close>

lemma bracketFrom_Some:
  assumes "i \<le> k" "k + 1 < length hs"
    and "\<And>j. i \<le> j \<Longrightarrow> j < k \<Longrightarrow> \<not> (time (hs ! j) \<le> now \<and> now < time (hs ! (j + 1)))"
    and "time (hs ! k) \<le> now" "now < time (hs ! (k + 1))"
  shows "bracketFrom hs now i =
           Some (height (hs ! k)
                 + real_of_int (now - time (hs ! k))
                     / real_of_int (time (hs ! (k + 1)) - time (hs ! k))
                   * (height (hs ! (k + 1)) - height (hs ! k)))"
  using assms
proof (induction "k - i" arbitrary: i)
  case 0
  then have "i = k" by simp
  with 0 show ?case
    by (subst bracketFrom.simps) (simp add: Let_def)
next
  case (Suc n)
  then have lt: "i < k" by simp
  then have "\<not> (time (hs ! i) \<le> now \<and> now < time (hs ! (i + 1)))"
    using Suc.prems(3) [of i] by simp
  moreover have "i + 1 < length hs" using lt Suc.prems(2) by simp
  moreover have "bracketFrom hs now (i + 1) =
           Some (height (hs ! k)
                 + real_of_int (now - time (hs ! k))
                     / real_of_int (time (hs ! (k + 1)) - time (hs ! k))
                   * (height (hs ! (k + 1)) - height (hs ! k)))"
    using Suc lt by (intro Suc.hyps(1)) auto
  ultimately show ?case
    by (subst bracketFrom.simps) (auto simp: Let_def)
qed

text \<open>Before the first sample of a series in time order: the first height.\<close>

lemma getCurrentTideHeight_before_first:
  assumes "sorted (map time (hourly tideData))" "hourly tideData \<noteq> []"
    and "now < time (hourly tideData ! 0)"
  shows "getCurrentTideHeight tideData now = height (hourly tideData ! 0)"
proof -
  have "time (hourly tideData ! 0) \<le> time (hourly tideData ! j)"
    if "j + 1 < length (hourly tideData)" for j
  proof -
    have "0 < length (hourly tideData)" "j < length (hourly tideData)"
      using that assms(2) by simp_all
    then show ?thesis
      using assms(1) sorted_nth_mono [of "map time (hourly tideData)" 0 j] by simp
  qed
  then have "bracketFrom (hourly tideData) now 0 = None"
    using assms(3) by (intro bracketFrom_None) fastforce
  then show ?thesis
    using assms(2) by (simp add: getCurrentTideHeight_def)
qed

text \<open>From the last sample of a series in time order on: again the first height, never the
  last one.\<close>

lemma getCurrentTideHeight_from_last:
  assumes "sorted (map time (hourly tideData))" "hourly tideData \<noteq> []"
    and "time (last (hourly tideData)) \<le> now"
  shows "getCurrentTideHeight tideData now = height (hourly tideData ! 0)"
proof -
  have "time (hourly tideData ! (j + 1)) \<le> time (last (hourly tideData))"
    if "j + 1 < length (hourly tideData)" for j
    using assms(1,2) that
      sorted_nth_mono [of "map time (hourly tideData)" "j + 1" "length (hourly tideData) - 1"]
    by (simp add: last_conv_nth)
  then have "bracketFrom (hourly tideData) now 0 = None"
    using assms(3) by (intro bracketFrom_None) fastforce
  then show ?thesis
    using assms(2) by (simp add: getCurrentTideHeight_def)
qed

text \<open>At the time of a sample that has a successor, in a series of strictly growing times:
  the height of that sample.\<close>

lemma getCurrentTideHeight_at_inner_sample:
  assumes "sorted_wrt (<) (map time (hourly tideData))" "k + 1 < length (hourly tideData)"
  shows "getCurrentTideHeight tideData (time (hourly tideData ! k)) = height (hourly tideData ! k)"
proof -
  have mono: "time (hourly tideData ! a) < time (hourly tideData ! b)"
    if "a < b" "b < length (hourly tideData)" for a b
    using assms(1) that sorted_wrt_nth_less [of "(<)" "map time (hourly tideData)" a b] by simp
  have "\<not> (time (hourly tideData ! j) \<le> time (hourly tideData ! k)
           \<and> time (hourly tideData ! k) < time (hourly tideData ! (j + 1)))" if "j < k" for j
  proof (cases "j + 1 = k")
    case True
    then show ?thesis by simp
  next
    case False
    with that have "j + 1 < k" by simp
    then have "time (hourly tideData ! (j + 1)) < time (hourly tideData ! k)"
      using assms(2) by (intro mono) simp_all
    then show ?thesis by simp
  qed
  moreover have "time (hourly tideData ! k) < time (hourly tideData ! (k + 1))"
    using assms(2) by (intro mono) simp_all
  ultimately have "bracketFrom (hourly tideData) (time (hourly tideData ! k)) 0 =
      Some (height (hourly tideData ! k)
            + real_of_int (time (hourly tideData ! k) - time (hourly tideData ! k))
                / real_of_int (time (hourly tideData ! (k + 1)) - time (hourly tideData ! k))
              * (height (hourly tideData ! (k + 1)) - height (hourly tideData ! k)))"
    using assms(2) by (intro bracketFrom_Some) simp_all
  then show ?thesis
    by (simp add: getCurrentTideHeight_def)
qed

text \<open>
  Claim C4: for a non-empty hourly series and a query time before the first or after the
  last sample, \<^verbatim>\<open>getCurrentTideHeight\<close> returns the height of the nearest endpoint sample:
  the first before the range, the last after it. The source's fallback is commented
  \<^verbatim>\<open>// Fallback to first or last reading\<close> and returns \<^verbatim>\<open>hourly[0].height\<close> in both cases.
  On the series (0 ms, 1 ft), (3600000 ms, 2 ft), two hours after the first sample, the
  code returns 1 ft, the first height, where the last one is 2 ft.
\<close>

theorem C4_getCurrentTideHeight_after_last:
  "getCurrentTideHeight
     \<lparr>highLow = [],
      hourly = [\<lparr>time = 0, height = 1, type' = None\<rparr>,
                \<lparr>time = 3600000, height = 2, type' = None\<rparr>]\<rparr>
     7200000 = 1
   \<and> height (last [\<lparr>time = 0, height = 1, type' = None\<rparr>,
                    \<lparr>time = 3600000, height = 2, type' = None\<rparr>]) = 2"
  by (simp add: getCurrentTideHeight_def bracketFrom.simps)

text \<open>
  Claim C5: at the exact time of a sample of a non-empty hourly series,
  \<^verbatim>\<open>getCurrentTideHeight\<close> returns the height of that sample, the last sample included.
  The loop needs a successor to bracket the time, so at the time of the last sample it
  falls through to the same fallback as in C4: on the series above, at 3600000 ms, the code
  returns 1 ft, where the sample's height is 2 ft.
\<close>

theorem C5_getCurrentTideHeight_at_last:
  "getCurrentTideHeight
     \<lparr>highLow = [],
      hourly = [\<lparr>time = 0, height = 1, type' = None\<rparr>,
                \<lparr>time = 3600000, height = 2, type' = None\<rparr>]\<rparr>
     (time \<lparr>time = 3600000, height = 2, type' = None\<rparr>) = 1"
  by (simp add: getCurrentTideHeight_def bracketFrom.simps)

section \<open>Properties of \<^verbatim>\<open>calculateBestTimeWindow\<close>\<close>

lemma collectHourlyScores_hours:
  "x \<in> set (collectHourlyScores ps spotBestTide today tomorrow)
   \<Longrightarrow> 5 \<le> hsHour x \<and> hsHour x \<le> 20"
  by (induction ps) (auto simp: Let_def split: if_splits)

lemma collectHourlyScores_empty_iff:
  "collectHourlyScores ps spotBestTide today tomorrow = []
   \<longleftrightarrow> (\<forall>p \<in> set ps. \<not> (today \<le> time p \<and> time p < tomorrow
                          \<and> 5 \<le> getHours (time p) \<and> getHours (time p) \<le> 20))"
  by (induction ps) (auto simp: Let_def)

lemma surfableHours_empty_iff:
  "surfableHours tideData spotBestTide now = []
   \<longleftrightarrow> (\<forall>p \<in> set (hourly tideData). \<not> contributesSurfableHour now p)"
  unfolding surfableHours_def Let_def contributesSurfableHour_def
  by (rule collectHourlyScores_empty_iff)

lemma considerWindow_within:
  assumes hours: "\<And>x. x \<in> set hourlyScores \<Longrightarrow> 5 \<le> hsHour x \<and> hsHour x \<le> 20"
    and size: "0 < windowSize" "i + windowSize \<le> length hourlyScores"
    and best: "windowWithinHours bestWindow"
  shows "windowWithinHours (considerWindow hourlyScores windowSize i bestWindow)"
proof -
  define window where "window = take windowSize (drop i hourlyScores)"
  have len: "length window = windowSize"
    using size by (simp add: window_def)
  have first: "window ! 0 \<in> set hourlyScores"
    using size len by (metis in_set_dropD in_set_takeD nth_mem window_def)
  have final: "window ! (length window - 1) \<in> set hourlyScores"
    using size len
    by (metis diff_less in_set_dropD in_set_takeD nth_mem window_def zero_less_one)
  show ?thesis
    using hours [OF first] hours [OF final] best
    unfolding considerWindow_def Let_def window_def [symmetric]
    by (simp add: windowWithinHours_def)
qed

lemma slideWindow_within:
  assumes hours: "\<And>x. x \<in> set hourlyScores \<Longrightarrow> 5 \<le> hsHour x \<and> hsHour x \<le> 20"
    and size: "0 < windowSize"
    and best: "windowWithinHours bestWindow"
  shows "windowWithinHours (slideWindow hourlyScores windowSize bestWindow)"
proof -
  have folded: "windowWithinHours (fold (considerWindow hourlyScores windowSize) is b)"
    if "\<And>i. i \<in> set is \<Longrightarrow> i + windowSize \<le> length hourlyScores" "windowWithinHours b"
    for "is" b
    using that
  proof (induction "is" arbitrary: b)
    case Nil
    then show ?case by simp
  next
    case (Cons i "is")
    have "windowWithinHours (considerWindow hourlyScores windowSize i b)"
      using Cons.prems by (intro considerWindow_within hours size) simp_all
    then show ?case
      using Cons by simp
  qed
  then show ?thesis
    unfolding slideWindow_def using best by (intro folded) auto
qed


lemma findBestWindow_within:
  assumes "\<And>x. x \<in> set hourlyScores \<Longrightarrow> 5 \<le> hsHour x \<and> hsHour x \<le> 20"
  shows "windowWithinHours (findBestWindow hourlyScores)"
  unfolding findBestWindow_def
  by (intro slideWindow_within assms) (simp_all add: windowWithinHours_def)

lemma bestWindowOf_None_iff:
  "bestWindowOf tideData spotBestTide now = None
   \<longleftrightarrow> (\<forall>p \<in> set (hourly tideData). \<not> contributesSurfableHour now p)"
proof (cases "hourly tideData = []")
  case True
  then show ?thesis by (simp add: bestWindowOf_def)
next
  case False
  then show ?thesis
    by (simp add: bestWindowOf_def Let_def surfableHours_empty_iff)
qed

lemma bestWindowOf_within:
  assumes "bestWindowOf tideData spotBestTide now = Some w"
  shows "windowWithinHours w"
proof -
  have "w = findBestWindow (surfableHours tideData spotBestTide now)"
    using assms by (simp add: bestWindowOf_def Let_def split: if_splits)
  moreover have "5 \<le> hsHour x \<and> hsHour x \<le> 20"
    if "x \<in> set (surfableHours tideData spotBestTide now)" for x
    using that unfolding surfableHours_def Let_def by (rule collectHourlyScores_hours)
  ultimately show ?thesis
    by (simp add: findBestWindow_within)
qed

lemma calculateBestTimeWindow_empty:
  "calculateBestTimeWindow \<lparr>highLow = hl, hourly = []\<rparr> spotBestTide now = None"
  by (simp add: calculateBestTimeWindow_def bestWindowOf_def)

text \<open>A day of hourly predictions whose tide is low in the evening, for a spot that is best
  at low tide.\<close>

lemma evening_low_hours:
  "surfableHours \<lparr>highLow = [], hourly = hourlySeries 
       [2, 2.5, 3, 3.5, 4, 4.5, 5, 5, 4.5, 4, 3.5, 3.5,
        4, 4.5, 5, 5, 4.5, 3.5, 2.5, 1, 0.5, 0.5, 1, 2]\<rparr> TideLow 0
  = [\<lparr>hsHour = 5, hsScore = 60, hsTideHeight = 9 / 2\<rparr>,
     \<lparr>hsHour = 6, hsScore = 60, hsTideHeight = 5\<rparr>,
     \<lparr>hsHour = 7, hsScore = 60, hsTideHeight = 5\<rparr>,
     \<lparr>hsHour = 8, hsScore = 60, hsTideHeight = 9 / 2\<rparr>,
     \<lparr>hsHour = 9, hsScore = 45, hsTideHeight = 4\<rparr>,
     \<lparr>hsHour = 10, hsScore = 45, hsTideHeight = 7 / 2\<rparr>,
     \<lparr>hsHour = 11, hsScore = 20, hsTideHeight = 7 / 2\<rparr>,
     \<lparr>hsHour = 12, hsScore = 20, hsTideHeight = 4\<rparr>,
     \<lparr>hsHour = 13, hsScore = 20, hsTideHeight = 9 / 2\<rparr>,
     \<lparr>hsHour = 14, hsScore = 20, hsTideHeight = 5\<rparr>,
     \<lparr>hsHour = 15, hsScore = 30, hsTideHeight = 5\<rparr>,
     \<lparr>hsHour = 16, hsScore = 30, hsTideHeight = 9 / 2\<rparr>,
     \<lparr>hsHour = 17, hsScore = 50, hsTideHeight = 7 / 2\<rparr>,
     \<lparr>hsHour = 18, hsScore = 65, hsTideHeight = 5 / 2\<rparr>,
     \<lparr>hsHour = 19, hsScore = 75, hsTideHeight = 1\<rparr>,
     \<lparr>hsHour = 20, hsScore = 75, hsTideHeight = 1 / 2\<rparr>]"
  by (simp add: surfableHours_def hourlySeries_def startOfDay_def msPerDay_def msPerHour_def
      getHours_def windPatternScore_def upt_rec [of _ "numeral _"] Let_def)

lemma evening_low_best:
  "findBestWindow
    [\<lparr>hsHour = 5, hsScore = 60, hsTideHeight = 9 / 2\<rparr>,
     \<lparr>hsHour = 6, hsScore = 60, hsTideHeight = 5\<rparr>,
     \<lparr>hsHour = 7, hsScore = 60, hsTideHeight = 5\<rparr>,
     \<lparr>hsHour = 8, hsScore = 60, hsTideHeight = 9 / 2\<rparr>,
     \<lparr>hsHour = 9, hsScore = 45, hsTideHeight = 4\<rparr>,
     \<lparr>hsHour = 10, hsScore = 45, hsTideHeight = 7 / 2\<rparr>,
     \<lparr>hsHour = 11, hsScore = 20, hsTideHeight = 7 / 2\<rparr>,
     \<lparr>hsHour = 12, hsScore = 20, hsTideHeight = 4\<rparr>,
     \<lparr>hsHour = 13, hsScore = 20, hsTideHeight = 9 / 2\<rparr>,
     \<lparr>hsHour = 14, hsScore = 20, hsTideHeight = 5\<rparr>,
     \<lparr>hsHour = 15, hsScore = 30, hsTideHeight = 5\<rparr>,
     \<lparr>hsHour = 16, hsScore = 30, hsTideHeight = 9 / 2\<rparr>,
     \<lparr>hsHour = 17, hsScore = 50, hsTideHeight = 7 / 2\<rparr>,
     \<lparr>hsHour = 18, hsScore = 65, hsTideHeight = 5 / 2\<rparr>,
     \<lparr>hsHour = 19, hsScore = 75, hsTideHeight = 1\<rparr>,
     \<lparr>hsHour = 20, hsScore = 75, hsTideHeight = 1 / 2\<rparr>]
   = \<lparr>startHour = 19, endHour = 21, avgScore = 75, avgTide = 3 / 4\<rparr>"
  by (simp add: findBestWindow_def slideWindow_def considerWindow_def Let_def
      upt_rec [of _ "numeral _"])

lemma evening_low_window:
  "bestWindowOf \<lparr>highLow = [], hourly = hourlySeries 
       [2, 2.5, 3, 3.5, 4, 4.5, 5, 5, 4.5, 4, 3.5, 3.5,
        4, 4.5, 5, 5, 4.5, 3.5, 2.5, 1, 0.5, 0.5, 1, 2]\<rparr> TideLow 0
   = Some \<lparr>startHour = 19, endHour = 21, avgScore = 75, avgTide = 3 / 4\<rparr>"
proof -
  have "hourly \<lparr>highLow = [], hourly = hourlySeries 
       [2, 2.5, 3, 3.5, 4, 4.5, 5, 5, 4.5, 4, 3.5, 3.5,
        4, 4.5, 5, 5, 4.5, 3.5, 2.5, 1, 0.5, 0.5, 1, 2]\<rparr> \<noteq> []"
    by (simp add: hourlySeries_def)
  then show ?thesis
    unfolding bestWindowOf_def Let_def evening_low_hours evening_low_best by simp
qed

text \<open>What the function does as it is written: null exactly when no prediction passes
  its filter (today, hours 5..20), and a window that starts at an hour of 5..20 and ends one
  hour after an hour of 5..20.\<close>

lemma calculateBestTimeWindow_None_iff:
  "calculateBestTimeWindow tideData spotBestTide now = None
   \<longleftrightarrow> (\<forall>p \<in> set (hourly tideData). \<not> contributesSurfableHour now p)"
proof -
  have "calculateBestTimeWindow tideData spotBestTide now = None
        \<longleftrightarrow> bestWindowOf tideData spotBestTide now = None"
    by (simp add: calculateBestTimeWindow_def split: option.splits)
  then show ?thesis
    by (simp only: bestWindowOf_None_iff)
qed

lemma calculateBestTimeWindow_Some:
  assumes "calculateBestTimeWindow tideData spotBestTide now = Some r"
  shows "\<exists>w. bestWindowOf tideData spotBestTide now = Some w
             \<and> start r = formatHour (startHour w) \<and> end' r = formatHour (endHour w)
             \<and> 5 \<le> startHour w \<and> startHour w \<le> 20
             \<and> 6 \<le> endHour w \<and> endHour w \<le> 21"
proof -
  obtain w where w: "bestWindowOf tideData spotBestTide now = Some w"
    and "start r = formatHour (startHour w)" "end' r = formatHour (endHour w)"
    using assms by (auto simp: calculateBestTimeWindow_def split: option.splits)
  moreover have "windowWithinHours w"
    using w by (rule bestWindowOf_within)
  ultimately show ?thesis
    unfolding windowWithinHours_def by blast
qed

text \<open>The filter keeps the predictions of today only: the hours 6 and 7 of the next day
  give null.\<close>

lemma calculateBestTimeWindow_other_day:
  "calculateBestTimeWindow
      \<lparr>highLow = [],
       hourly = [\<lparr>time = 86400000 + 6 * 3600000, height = 3, type' = None\<rparr>,
                 \<lparr>time = 86400000 + 7 * 3600000, height = 3.5, type' = None\<rparr>]\<rparr> TideAny 7000
     = None"
  by (simp add: calculateBestTimeWindow_def bestWindowOf_def surfableHours_def
      startOfDay_def msPerDay_def Let_def)

lemma calculateBestTimeWindow_morning:
  "calculateBestTimeWindow
      \<lparr>highLow = [],
       hourly = [\<lparr>time = 6 * 3600000, height = 3, type' = None\<rparr>,
                 \<lparr>time = 7 * 3600000, height = 3.5, type' = None\<rparr>]\<rparr> TideAny 7000
     = Some \<lparr>start = ''6:00 AM'', end' = ''8:00 AM'',
             reason = ''Mid tide + light morning winds''\<rparr>"
  by (simp add: calculateBestTimeWindow_def bestWindowOf_def surfableHours_def
      startOfDay_def msPerDay_def msPerHour_def getHours_def
      windPatternScore_def findBestWindow_def slideWindow_def considerWindow_def Let_def
      formatHour_def showNat.simps digitChar_def windowReason_def getTideDescription_def)

text \<open>
  Claim C6: \<^verbatim>\<open>calculateBestTimeWindow\<close> returns null exactly when the day's series contributes
  no hour of the surfable range 5..20, and the start hour and the end hour of every window
  it returns both lie within [5, 20]. The source gives the surfable hours as
  \<^verbatim>\<open>5am - 8pm\<close>, and sets \<^verbatim>\<open>endHour\<close> to the hour of the last entry plus one without a cap
  at 20 (the week forecast caps its window with \<^verbatim>\<open>Math.min(bestEnd + 1, 20)\<close>). On the day
  above, of today, the best window is made of the hours 19 and 20, and the code returns
  the window from \<^verbatim>\<open>"7:00 PM"\<close> to \<^verbatim>\<open>"9:00 PM"\<close>: its end hour is 21.
\<close>

theorem C6_calculateBestTimeWindow_ends_at_21:
  "calculateBestTimeWindow \<lparr>highLow = [], hourly = hourlySeries 
       [2, 2.5, 3, 3.5, 4, 4.5, 5, 5, 4.5, 4, 3.5, 3.5,
        4, 4.5, 5, 5, 4.5, 3.5, 2.5, 1, 0.5, 0.5, 1, 2]\<rparr> TideLow 0
     = Some \<lparr>start = ''7:00 PM'', end' = ''9:00 PM'', reason = ''Low tide + evening glass-off''\<rparr>
   \<and> map_option endHour (bestWindowOf \<lparr>highLow = [], hourly = hourlySeries 
       [2, 2.5, 3, 3.5, 4, 4.5, 5, 5, 4.5, 4, 3.5, 3.5,
        4, 4.5, 5, 5, 4.5, 3.5, 2.5, 1, 0.5, 0.5, 1, 2]\<rparr> TideLow 0)
     = Some 21
   \<and> \<not> (21 :: nat) \<le> 20"
  unfolding calculateBestTimeWindow_def evening_low_window
  by (simp add: formatHour_def showNat.simps digitChar_def windowReason_def
      getTideDescription_def)

section \<open>Properties of \<^verbatim>\<open>getDawnPatrolStatus\<close>\<close>

lemma calculateLeaveBy_eq:
  "calculateLeaveBy targetTime driveMinutes bufferMinutes
   = targetTime - (driveMinutes + bufferMinutes) * msPerMinute"
  by (simp add: calculateLeaveBy_def setMinutes_def algebra_simps)

lemma arriveBy_eq:
  "setMinutes (calculateLeaveBy targetTime d 10) (getMinutes (calculateLeaveBy targetTime d 10) + d + 10)
   = targetTime"
  by (simp add: calculateLeaveBy_eq) (simp add: setMinutes_def algebra_simps)

text \<open>Without a usable drive time: two statuses, no \<open>leaveBy\<close>.\<close>

lemma getDawnPatrolStatus_falsy:
  assumes "falsy driveMinutes"
  shows "status (getDawnPatrolStatus now sunTimes driveMinutes)
           = (if now < firstLight sunTimes then TooEarly else Surfing)"
    and "leaveBy (getDawnPatrolStatus now sunTimes driveMinutes) = None"
  using assms by (simp_all add: getDawnPatrolStatus_def)

text \<open>With a drive time other than 0: the five statuses in the order of the source's tests.\<close>

lemma getDawnPatrolStatus_drive:
  assumes "d \<noteq> 0"
  shows "status (getDawnPatrolStatus now sunTimes (Some d))
         = (let leaveBy' = firstLight sunTimes - (d + 10) * msPerMinute
            in if now < leaveBy' - 30 * msPerMinute then TooEarly
               else if now < leaveBy' then LeaveNow
               else if now < firstLight sunTimes then OnTheWay
               else if now < sunset sunTimes then Surfing
               else Missed)"
    and "leaveBy (getDawnPatrolStatus now sunTimes (Some d))
         = (if now < firstLight sunTimes \<or> now < firstLight sunTimes - (d + 10) * msPerMinute
            then Some (firstLight sunTimes - (d + 10) * msPerMinute) else None)"
proof -
  have f: "\<not> falsy (Some d)" using assms by (simp add: falsy_def)
  show "status (getDawnPatrolStatus now sunTimes (Some d))
         = (let leaveBy' = firstLight sunTimes - (d + 10) * msPerMinute
            in if now < leaveBy' - 30 * msPerMinute then TooEarly
               else if now < leaveBy' then LeaveNow
               else if now < firstLight sunTimes then OnTheWay
               else if now < sunset sunTimes then Surfing
               else Missed)"
    unfolding getDawnPatrolStatus_def Let_def
    by (simp add: f arriveBy_eq) (simp add: calculateLeaveBy_eq msPerMinute_def)
  show "leaveBy (getDawnPatrolStatus now sunTimes (Some d))
         = (if now < firstLight sunTimes \<or> now < firstLight sunTimes - (d + 10) * msPerMinute
            then Some (firstLight sunTimes - (d + 10) * msPerMinute) else None)"
    unfolding getDawnPatrolStatus_def Let_def
    by (simp add: f arriveBy_eq) (auto simp add: calculateLeaveBy_eq msPerMinute_def)
qed


text \<open>The path with a drive time does report the end of the day: from sunset on the status
  is \<open>Missed\<close>, and \<open>Surfing\<close> is reported strictly before sunset only.\<close>

lemma getDawnPatrolStatus_drive_missed:
  assumes "0 < d" "firstLight sunTimes \<le> sunset sunTimes" "sunset sunTimes \<le> now"
  shows "status (getDawnPatrolStatus now sunTimes (Some d)) = Missed"
proof -
  define leave where "leave = firstLight sunTimes - (d + 10) * msPerMinute"
  have lt: "leave < firstLight sunTimes"
    using assms(1) by (simp add: leave_def msPerMinute_def)
  have st: "status (getDawnPatrolStatus now sunTimes (Some d))
         = (if now < leave - 30 * msPerMinute then TooEarly
            else if now < leave then LeaveNow
            else if now < firstLight sunTimes then OnTheWay
            else if now < sunset sunTimes then Surfing
            else Missed)"
    using assms(1) by (simp add: getDawnPatrolStatus_drive(1) Let_def leave_def)
  show ?thesis
    using lt assms(2,3) unfolding st msPerMinute_def by simp
qed

lemma getDawnPatrolStatus_drive_surfing:
  assumes "d \<noteq> 0" "status (getDawnPatrolStatus now sunTimes (Some d)) = Surfing"
  shows "now < sunset sunTimes"
  using assms by (simp add: getDawnPatrolStatus_drive(1) Let_def split: if_splits)

text \<open>
  Claim C7: for every sun-times record, every current time and every optional drive-time
  estimate, the status is \<^verbatim>\<open>missed\<close> whenever the current time is at or after sunset, and
  \<^verbatim>\<open>surfing\<close> holds strictly before sunset only. The branch without a drive time never
  looks at the sunset: with first light at 6:00, sunrise at 6:30, sunset at 18:00 and no
  drive time, at 20:00 the code answers \<^verbatim>\<open>surfing\<close>, \<^verbatim>\<open>"Sun is up until 6:00 PM"\<close>.
\<close>

theorem C7_getDawnPatrolStatus_after_sunset:
  "getDawnPatrolStatus 72000000
     \<lparr>sunrise = 23400000, sunset = 64800000, firstLight = 21600000, lastLight = 66600000\<rparr>
     None
   = \<lparr>status = Surfing, message = ''Sun is up until 6:00 PM'', leaveBy = None\<rparr>
   \<and> sunset \<lparr>sunrise = 23400000, sunset = 64800000, firstLight = 21600000,
              lastLight = 66600000\<rparr> \<le> 72000000"
  by (simp add: getDawnPatrolStatus_def falsy_def formatTime_def getHours_def getMinutes_def
      msPerDay_def msPerHour_def msPerMinute_def showNat.simps digitChar_def)

lemma getDawnPatrolStatus_zero_is_absent:
  "getDawnPatrolStatus now sunTimes (Some 0) = getDawnPatrolStatus now sunTimes None"
  by (simp add: getDawnPatrolStatus_def falsy_def)

lemma getDawnPatrolStatus_all_statuses:
  assumes "0 < d" "firstLight sunTimes < sunset sunTimes"
  shows "\<exists>now. status (getDawnPatrolStatus now sunTimes (Some d)) = s"
proof -
  define leave where "leave = firstLight sunTimes - (d + 10) * msPerMinute"
  have lt: "leave < firstLight sunTimes"
    using assms(1) by (simp add: leave_def msPerMinute_def)
  have st: "status (getDawnPatrolStatus now sunTimes (Some d))
         = (if now < leave - 30 * msPerMinute then TooEarly
            else if now < leave then LeaveNow
            else if now < firstLight sunTimes then OnTheWay
            else if now < sunset sunTimes then Surfing
            else Missed)" for now
    using assms(1) by (simp add: getDawnPatrolStatus_drive(1) Let_def leave_def)
  show ?thesis
  proof (cases s)
    case TooEarly
    have "status (getDawnPatrolStatus (leave - 30 * msPerMinute - 1) sunTimes (Some d)) = TooEarly"
      by (simp add: st)
    with TooEarly show ?thesis by blast
  next
    case LeaveNow
    have "status (getDawnPatrolStatus (leave - 1) sunTimes (Some d)) = LeaveNow"
      by (simp add: st msPerMinute_def)
    with LeaveNow show ?thesis by blast
  next
    case OnTheWay
    have "status (getDawnPatrolStatus leave sunTimes (Some d)) = OnTheWay"
      using lt by (simp add: st msPerMinute_def)
    with OnTheWay show ?thesis by blast
  next
    case Surfing
    have "status (getDawnPatrolStatus (firstLight sunTimes) sunTimes (Some d)) = Surfing"
      using lt assms(2) by (simp add: st msPerMinute_def)
    with Surfing show ?thesis by blast
  next
    case Missed
    have "status (getDawnPatrolStatus (sunset sunTimes) sunTimes (Some d)) = Missed"
      using lt assms(2) by (simp add: st msPerMinute_def)
    with Missed show ?thesis by blast
  qed
qed

lemma getDawnPatrolStatus_leaveBy_present:
  assumes "0 < d"
  shows "\<exists>now. leaveBy (getDawnPatrolStatus now sunTimes (Some d))
               = Some (firstLight sunTimes - (d + 10) * msPerMinute)"
proof -
  have "leaveBy (getDawnPatrolStatus (firstLight sunTimes - 1) sunTimes (Some d))
        = Some (firstLight sunTimes - (d + 10) * msPerMinute)"
    using assms by (simp add: getDawnPatrolStatus_drive(2))
  then show ?thesis by blast
qed

text \<open>
  Claim C10: a drive time of exactly 0 minutes is treated as no drive time (the argument is
  tested for truthiness): the result is the one without a drive time, its status is
  \<^verbatim>\<open>too-early\<close> or \<^verbatim>\<open>surfing\<close> and it has no \<^verbatim>\<open>leaveBy\<close>; with any positive drive time
  each of the five statuses is returned at some time of a day whose first light is before
  its sunset, and \<^verbatim>\<open>leaveBy\<close> is returned, first light minus the drive and the 10 minutes
  of buffer.
\<close>

theorem C10_getDawnPatrolStatus_zero_drive:
  "getDawnPatrolStatus now sunTimes (Some 0) = getDawnPatrolStatus now sunTimes None
   \<and> status (getDawnPatrolStatus now sunTimes (Some 0)) \<in> {TooEarly, Surfing}
   \<and> leaveBy (getDawnPatrolStatus now sunTimes (Some 0)) = None
   \<and> (0 < d \<and> firstLight sunTimes < sunset sunTimes \<longrightarrow>
        (\<forall>s. \<exists>now'. status (getDawnPatrolStatus now' sunTimes (Some d)) = s)
        \<and> (\<exists>now'. leaveBy (getDawnPatrolStatus now' sunTimes (Some d))
                     = Some (firstLight sunTimes - (d + 10) * msPerMinute)))"
proof -
  have z: "falsy (Some 0)" by (simp add: falsy_def)
  show ?thesis
    using getDawnPatrolStatus_zero_is_absent [of now sunTimes]
      getDawnPatrolStatus_falsy [OF z, of now sunTimes]
      getDawnPatrolStatus_all_statuses [of d sunTimes]
      getDawnPatrolStatus_leaveBy_present [of d sunTimes]
    by auto
qed


theorem C10_getDawnPatrolStatus_zero_drive_witness:
  "(0::int) < 25
   \<and> firstLight 
       \<lparr>sunrise = 23400000, sunset = 64800000, firstLight = 21600000, lastLight = 66600000\<rparr>
       < sunset 
       \<lparr>sunrise = 23400000, sunset = 64800000, firstLight = 21600000, lastLight = 66600000\<rparr>
   \<and> status (getDawnPatrolStatus 17000000 
       \<lparr>sunrise = 23400000, sunset = 64800000, firstLight = 21600000, lastLight = 66600000\<rparr> (Some 25)) = TooEarly
   \<and> status (getDawnPatrolStatus 19000000 
       \<lparr>sunrise = 23400000, sunset = 64800000, firstLight = 21600000, lastLight = 66600000\<rparr> (Some 25)) = LeaveNow
   \<and> status (getDawnPatrolStatus 20000000 
       \<lparr>sunrise = 23400000, sunset = 64800000, firstLight = 21600000, lastLight = 66600000\<rparr> (Some 25)) = OnTheWay
   \<and> status (getDawnPatrolStatus 30000000 
       \<lparr>sunrise = 23400000, sunset = 64800000, firstLight = 21600000, lastLight = 66600000\<rparr> (Some 25)) = Surfing
   \<and> status (getDawnPatrolStatus 72000000 
       \<lparr>sunrise = 23400000, sunset = 64800000, firstLight = 21600000, lastLight = 66600000\<rparr> (Some 25)) = Missed
   \<and> leaveBy (getDawnPatrolStatus 19000000 
       \<lparr>sunrise = 23400000, sunset = 64800000, firstLight = 21600000, lastLight = 66600000\<rparr> (Some 25)) = Some 19500000
   \<and> status (getDawnPatrolStatus 72000000 
       \<lparr>sunrise = 23400000, sunset = 64800000, firstLight = 21600000, lastLight = 66600000\<rparr> (Some 0)) = Surfing
   \<and> leaveBy (getDawnPatrolStatus 19000000 
       \<lparr>sunrise = 23400000, sunset = 64800000, firstLight = 21600000, lastLight = 66600000\<rparr> (Some 0)) = None"
  using C10_getDawnPatrolStatus_zero_drive [of 72000000 "
       \<lparr>sunrise = 23400000, sunset = 64800000, firstLight = 21600000, lastLight = 66600000\<rparr>" 25]
  by (simp add: getDawnPatrolStatus_def falsy_def calculateLeaveBy_def setMinutes_def
      getMinutes_def msPerHour_def msPerMinute_def)

end
